theory Spec2Isabelle
  imports Main "HOL-Library.Word"
begin

unbundle bit_operations_syntax

section \<open>Host ABI descriptor (x64 ABI header)\<close>

text \<open>
  The header defines, per host platform, the argument registers, the return register
  and two register sets. A register set is a \<open>BitSet32\<close>: one bit per register, built
  from a braced list of register numbers, combined with \<open>|\<close> and complemented with
  \<open>~\<close>. Neither \<open>BitSet32\<close> nor the register enumeration \<open>Gen::X64Reg\<close> is among the
  sources. The bit set is a 32-bit word; the enumeration's numbering is a parameter
  \<open>num\<close> of every definition that uses it.
\<close>

type_synonym BitSet32 = "32 word"

text \<open>
  The braced-list constructor: starting from the empty set, each listed number \<open>b\<close>
  sets bit \<open>b\<close> (\<open>m_val |= 1 << b\<close>).
\<close>

definition BitSet32_of :: "nat list \<Rightarrow> BitSet32" where
  "BitSet32_of init = fold (\<lambda>b m_val. m_val OR push_bit b 1) init 0"

datatype X64Reg =
    RAX | RCX | RDX | RBX | RSP | RBP | RSI | RDI
  | R8 | R9 | R10 | R11 | R12 | R13 | R14 | R15
  | XMM0 | XMM1 | XMM2 | XMM3 | XMM4 | XMM5 | XMM6 | XMM7
  | XMM8 | XMM9 | XMM10 | XMM11 | XMM12 | XMM13 | XMM14 | XMM15

text \<open>The two branches of \<open>#ifdef _WIN32\<close>.\<close>

datatype host_platform = Windows64 | Unix64

definition ABI_ALL_FPRS :: BitSet32 where
  "ABI_ALL_FPRS = 0xffff0000"

definition ABI_ALL_GPRS :: BitSet32 where
  "ABI_ALL_GPRS = 0x0000ffff"

fun ABI_PARAM1 :: "host_platform \<Rightarrow> X64Reg" where
  "ABI_PARAM1 Windows64 = RCX"
| "ABI_PARAM1 Unix64 = RDI"

fun ABI_PARAM2 :: "host_platform \<Rightarrow> X64Reg" where
  "ABI_PARAM2 Windows64 = RDX"
| "ABI_PARAM2 Unix64 = RSI"

fun ABI_PARAM3 :: "host_platform \<Rightarrow> X64Reg" where
  "ABI_PARAM3 Windows64 = R8"
| "ABI_PARAM3 Unix64 = RDX"

fun ABI_PARAM4 :: "host_platform \<Rightarrow> X64Reg" where
  "ABI_PARAM4 Windows64 = R9"
| "ABI_PARAM4 Unix64 = RCX"

text \<open>The fifth and sixth argument registers exist on Unix only.\<close>

fun ABI_PARAM5 :: "host_platform \<Rightarrow> X64Reg option" where
  "ABI_PARAM5 Windows64 = None"
| "ABI_PARAM5 Unix64 = Some R8"

fun ABI_PARAM6 :: "host_platform \<Rightarrow> X64Reg option" where
  "ABI_PARAM6 Windows64 = None"
| "ABI_PARAM6 Unix64 = Some R9"

definition ABI_RETURN :: X64Reg where
  "ABI_RETURN = RAX"

text \<open>
  The caller-saved set. On Windows the six volatile XMM registers are listed one by
  one, each as its number plus 16; on Unix all of \<open>ABI_ALL_FPRS\<close> is or-ed in.
\<close>

fun ABI_ALL_CALLER_SAVED :: "(X64Reg \<Rightarrow> nat) \<Rightarrow> host_platform \<Rightarrow> BitSet32" where
  "ABI_ALL_CALLER_SAVED num Windows64 =
     BitSet32_of [num RAX, num RCX, num RDX, num R8, num R9, num R10, num R11,
                  num XMM0 + 16, num XMM1 + 16, num XMM2 + 16,
                  num XMM3 + 16, num XMM4 + 16, num XMM5 + 16]"
| "ABI_ALL_CALLER_SAVED num Unix64 =
     BitSet32_of [num RAX, num RCX, num RDX, num RDI, num RSI,
                  num R8, num R9, num R10, num R11]
     OR ABI_ALL_FPRS"

definition ABI_ALL_CALLEE_SAVED :: "(X64Reg \<Rightarrow> nat) \<Rightarrow> host_platform \<Rightarrow> BitSet32" where
  "ABI_ALL_CALLEE_SAVED num p = NOT (ABI_ALL_CALLER_SAVED num p)"

text \<open>
  The argument registers a platform defines, in order, for stating properties of all of
  them at once.
\<close>

definition abi_param_regs :: "host_platform \<Rightarrow> X64Reg list" where
  "abi_param_regs p =
     [ABI_PARAM1 p, ABI_PARAM2 p, ABI_PARAM3 p, ABI_PARAM4 p]
     @ (case ABI_PARAM5 p of None \<Rightarrow> [] | Some r \<Rightarrow> [r])
     @ (case ABI_PARAM6 p of None \<Rightarrow> [] | Some r \<Rightarrow> [r])"

text \<open>
  The hardware numbering of x86-64: general-purpose registers 0 to 15 in encoding
  order, XMM registers 0 to 15. It instantiates \<open>num\<close> in the concrete instances below.
\<close>

fun x64_encoding :: "X64Reg \<Rightarrow> nat" where
  "x64_encoding RAX = 0" | "x64_encoding RCX = 1" | "x64_encoding RDX = 2"
| "x64_encoding RBX = 3" | "x64_encoding RSP = 4" | "x64_encoding RBP = 5"
| "x64_encoding RSI = 6" | "x64_encoding RDI = 7" | "x64_encoding R8 = 8"
| "x64_encoding R9 = 9" | "x64_encoding R10 = 10" | "x64_encoding R11 = 11"
| "x64_encoding R12 = 12" | "x64_encoding R13 = 13" | "x64_encoding R14 = 14"
| "x64_encoding R15 = 15"
| "x64_encoding XMM0 = 0" | "x64_encoding XMM1 = 1" | "x64_encoding XMM2 = 2"
| "x64_encoding XMM3 = 3" | "x64_encoding XMM4 = 4" | "x64_encoding XMM5 = 5"
| "x64_encoding XMM6 = 6" | "x64_encoding XMM7 = 7" | "x64_encoding XMM8 = 8"
| "x64_encoding XMM9 = 9" | "x64_encoding XMM10 = 10" | "x64_encoding XMM11 = 11"
| "x64_encoding XMM12 = 12" | "x64_encoding XMM13 = 13" | "x64_encoding XMM14 = 14"
| "x64_encoding XMM15 = 15"



section \<open>JIT handlers of the interpreter-only instructions\<close>

text \<open>
  Nine member functions of the class \<open>JitX64\<close> (\<open>qadd_qsub.cpp\<close>, \<open>reversal.cpp\<close>,
  \<open>usad.cpp\<close>) each consist of the single call \<open>CompileInterpretInstruction()\<close>. The
  class and that member function are not among the sources. The compiler state
  holds the instruction being compiled and the code emitted so far; an emitted item is
  either native host code or a call-out to the interpreter for one instruction.
\<close>

datatype 'i emitted = Native "8 word list" | InterpreterCallOut 'i

record 'i JitX64 =
  current_instruction :: 'i
  emitted_code :: "'i emitted list"

text \<open>
  Modelled from the spec: \<open>CompileInterpretInstruction\<close> is not among the sources. For
  an interpreter-only instruction the Block Compiler emits "an ABI Bridge call-out to the
  Interpreter, passing the Decoded Instruction and a pointer to Processor State".
\<close>

definition CompileInterpretInstruction :: "'i JitX64 \<Rightarrow> 'i JitX64" where
  "CompileInterpretInstruction jit =
     jit\<lparr>emitted_code := emitted_code jit @ [InterpreterCallOut (current_instruction jit)]\<rparr>"

definition JitX64_QADD :: "'i JitX64 \<Rightarrow> 'i JitX64" where
  "JitX64_QADD jit = CompileInterpretInstruction jit"

definition JitX64_QSUB :: "'i JitX64 \<Rightarrow> 'i JitX64" where
  "JitX64_QSUB jit = CompileInterpretInstruction jit"

definition JitX64_QDADD :: "'i JitX64 \<Rightarrow> 'i JitX64" where
  "JitX64_QDADD jit = CompileInterpretInstruction jit"

definition JitX64_QDSUB :: "'i JitX64 \<Rightarrow> 'i JitX64" where
  "JitX64_QDSUB jit = CompileInterpretInstruction jit"

definition JitX64_REV :: "'i JitX64 \<Rightarrow> 'i JitX64" where
  "JitX64_REV jit = CompileInterpretInstruction jit"

definition JitX64_REV16 :: "'i JitX64 \<Rightarrow> 'i JitX64" where
  "JitX64_REV16 jit = CompileInterpretInstruction jit"

definition JitX64_REVSH :: "'i JitX64 \<Rightarrow> 'i JitX64" where
  "JitX64_REVSH jit = CompileInterpretInstruction jit"

definition JitX64_USAD8 :: "'i JitX64 \<Rightarrow> 'i JitX64" where
  "JitX64_USAD8 jit = CompileInterpretInstruction jit"

definition JitX64_USADA8 :: "'i JitX64 \<Rightarrow> 'i JitX64" where
  "JitX64_USADA8 jit = CompileInterpretInstruction jit"

text \<open>The nine handlers, for stating a property of each of them.\<close>

definition interpreter_only_handlers :: "('i JitX64 \<Rightarrow> 'i JitX64) list" where
  "interpreter_only_handlers =
     [JitX64_QADD, JitX64_QSUB, JitX64_QDADD, JitX64_QDSUB,
      JitX64_REV, JitX64_REV16, JitX64_REVSH, JitX64_USAD8, JitX64_USADA8]"

text \<open>
  What emitted code does to the Processor State \<open>'ps\<close>: a call-out runs the interpreter
  (\<open>InterpretOne\<close>, a parameter) on its instruction; native code runs as the parameter
  \<open>run_native\<close> says.
\<close>

fun run_emitted ::
  "('i \<Rightarrow> 'ps \<Rightarrow> 'ps) \<Rightarrow> (8 word list \<Rightarrow> 'ps \<Rightarrow> 'ps) \<Rightarrow> 'i emitted list \<Rightarrow> 'ps \<Rightarrow> 'ps" where
  "run_emitted InterpretOne run_native [] ps = ps"
| "run_emitted InterpretOne run_native (Native bytes # rest) ps =
     run_emitted InterpretOne run_native rest (run_native bytes ps)"
| "run_emitted InterpretOne run_native (InterpreterCallOut i # rest) ps =
     run_emitted InterpretOne run_native rest (InterpretOne i ps)"


section \<open>Bytes, little-endian fields and the host byte store\<close>

type_synonym u8 = "8 word"
type_synonym u16 = "16 word"
type_synonym u32 = "32 word"
type_synonym VAddr = u32

text \<open>
  Host memory is a byte store indexed by host address; the null pointer is address 0.
  \<open>load_bytes\<close> is the byte image a \<open>memcpy\<close> out of the store gives a local object,
  \<open>store_bytes\<close> the \<open>memcpy\<close> of such an image back. C leaves \<open>memcpy\<close> between
  overlapping ranges undefined; here it copies the bytes the source range held before
  the call.
\<close>

type_synonym host_memory = "nat \<Rightarrow> u8"

definition load_bytes :: "host_memory \<Rightarrow> nat \<Rightarrow> nat \<Rightarrow> u8 list" where
  "load_bytes mem p n = map (\<lambda>i. mem (p + i)) [0..<n]"

definition store_bytes :: "host_memory \<Rightarrow> nat \<Rightarrow> u8 list \<Rightarrow> host_memory" where
  "store_bytes mem p bs =
     (\<lambda>a. if p \<le> a \<and> a < p + length bs then bs ! (a - p) else mem a)"

definition memcpy :: "host_memory \<Rightarrow> nat \<Rightarrow> nat \<Rightarrow> nat \<Rightarrow> host_memory" where
  "memcpy mem dst src n = store_bytes mem dst (load_bytes mem src n)"

text \<open>\<open>memcmp(p, lit, n) == 0\<close> for a string literal of at least \<open>n\<close> characters.\<close>

definition memcmp_eq :: "host_memory \<Rightarrow> nat \<Rightarrow> string \<Rightarrow> nat \<Rightarrow> bool" where
  "memcmp_eq mem p lit n = (load_bytes mem p n = map of_char (take n lit))"

definition u16_le :: "u8 \<Rightarrow> u8 \<Rightarrow> u16" where
  "u16_le b0 b1 = ucast b0 OR push_bit 8 (ucast b1)"

definition u32_le :: "u8 \<Rightarrow> u8 \<Rightarrow> u8 \<Rightarrow> u8 \<Rightarrow> u32" where
  "u32_le b0 b1 b2 b3 =
     ucast b0 OR push_bit 8 (ucast b1) OR push_bit 16 (ucast b2) OR push_bit 24 (ucast b3)"

text \<open>
  Fields of a local struct, read and written in its byte image at the field's offset.
  The structs of the shared font have no padding: every field lies at the sum of the
  sizes of the fields before it.
\<close>

definition get_u16 :: "u8 list \<Rightarrow> nat \<Rightarrow> u16" where
  "get_u16 obj off = u16_le (obj ! off) (obj ! (off + 1))"

definition get_u32 :: "u8 list \<Rightarrow> nat \<Rightarrow> u32" where
  "get_u32 obj off =
     u32_le (obj ! off) (obj ! (off + 1)) (obj ! (off + 2)) (obj ! (off + 3))"

definition set_u32 :: "u8 list \<Rightarrow> nat \<Rightarrow> u32 \<Rightarrow> u8 list" where
  "set_u32 obj off v =
     obj[off := ucast v, off + 1 := ucast (drop_bit 8 v),
         off + 2 := ucast (drop_bit 16 v), off + 3 := ucast (drop_bit 24 v)]"

text \<open>A 32-bit little-endian value in the store, for stating what the store holds.\<close>

definition read_u32 :: "host_memory \<Rightarrow> nat \<Rightarrow> u32" where
  "read_u32 mem p = get_u32 (load_bytes mem p 4) 0"


section \<open>APT service: pending parameter and shared font\<close>

text \<open>
  The service keeps its state in file-level statics. Those the functions below touch:
  the shared font memory object (a kernel object reference, null when no font was
  loaded), the flag \<open>shared_font_relocated\<close> and the pending parameter
  \<open>next_parameter\<close>. The thread's command buffer is an array of 32-bit words, kept
  apart from the byte store. The kernel's handle table has some state \<open>'h\<close>; kernel
  objects are references of some type \<open>'o\<close>.
\<close>

record 'o MessageParameter =
  sender_id :: u32
  destination_id :: u32
  signal :: u32
  buffer_size :: u32
  object :: "'o option"
  data :: nat

record ('o, 'h) apt_state =
  shared_font_mem :: "'o option"
  shared_font_relocated :: bool
  next_parameter :: "'o MessageParameter"
  cmd_buff :: "nat \<Rightarrow> u32"
  handle_table :: 'h
  memory :: host_memory

text \<open>
  What the service calls and the sources do not define, as parameters: the result
  code \<open>RESULT_SUCCESS.raw\<close>, the IPC header helpers, the handle table's
  \<open>Create(...).MoveFrom()\<close> (the new handle and the table after it), guest and
  shared-memory pointer lookup, the physical-to-virtual address translation, and the
  signal number \<open>SignalType::AppJustStarted\<close>.
\<close>

record ('o, 'h) kernel =
  RESULT_SUCCESS_raw :: u32
  IPC_MakeHeader :: "u32 \<Rightarrow> u32 \<Rightarrow> u32 \<Rightarrow> u32"
  IPC_MoveHandleDesc :: u32
  handle_table_Create :: "'h \<Rightarrow> 'o \<Rightarrow> u32 \<times> 'h"
  Memory_GetPointer :: "VAddr \<Rightarrow> nat"
  Memory_PhysicalToVirtualAddress :: "u32 \<Rightarrow> VAddr"
  SharedMemory_GetPointer :: "'o \<Rightarrow> u32 \<Rightarrow> nat"
  SharedMemory_linear_heap_phys_address :: "'o \<Rightarrow> u32"
  SignalType_AppJustStarted :: u32

subsection \<open>ReceiveParameter and GlanceParameter\<close>

text \<open>
  The two functions, statement by statement. Their local \<open>buffer_size\<close> (command buffer
  word 2 of the request) is \<open>requested_size\<close> here, the field of \<open>next_parameter\<close> keeps
  the name. Logging is left out.
\<close>

definition ReceiveParameter :: "('o, 'h) kernel \<Rightarrow> ('o, 'h) apt_state \<Rightarrow> ('o, 'h) apt_state" where
  "ReceiveParameter k s =
     (let cb = cmd_buff s;
          app_id = cb 1;
          requested_size = cb 2;
          buffer = cb (drop_bit 2 0x104);
          np = next_parameter s;
          cb = cb(1 := RESULT_SUCCESS_raw k);
          cb = cb(2 := sender_id np);
          cb = cb(3 := signal np);
          cb = cb(4 := buffer_size np);
          cb = cb(5 := 0x10);
          cb = cb(6 := 0);
          (cb, ht) = (case object np of
                        None \<Rightarrow> (cb, handle_table s)
                      | Some obj \<Rightarrow>
                          (case handle_table_Create k (handle_table s) obj of
                             (handle, ht) \<Rightarrow> (cb(6 := handle), ht)));
          cb = cb(7 := push_bit 14 (buffer_size np) OR 2);
          cb = cb(8 := buffer);
          mem = (if data np \<noteq> 0
                 then memcpy (memory s) (Memory_GetPointer k buffer) (data np)
                        (unat (min requested_size (buffer_size np)))
                 else memory s)
      in s\<lparr>cmd_buff := cb, handle_table := ht, memory := mem\<rparr>)"

definition GlanceParameter :: "('o, 'h) kernel \<Rightarrow> ('o, 'h) apt_state \<Rightarrow> ('o, 'h) apt_state" where
  "GlanceParameter k s =
     (let cb = cmd_buff s;
          app_id = cb 1;
          requested_size = cb 2;
          buffer = cb (drop_bit 2 0x104);
          np = next_parameter s;
          cb = cb(1 := RESULT_SUCCESS_raw k);
          cb = cb(2 := sender_id np);
          cb = cb(3 := signal np);
          cb = cb(4 := buffer_size np);
          cb = cb(5 := 0x10);
          cb = cb(6 := 0);
          (cb, ht) = (case object np of
                        None \<Rightarrow> (cb, handle_table s)
                      | Some obj \<Rightarrow>
                          (case handle_table_Create k (handle_table s) obj of
                             (handle, ht) \<Rightarrow> (cb(6 := handle), ht)));
          cb = cb(7 := push_bit 14 (buffer_size np) OR 2);
          cb = cb(8 := buffer);
          mem = (if data np \<noteq> 0
                 then memcpy (memory s) (Memory_GetPointer k buffer) (data np)
                        (unat (min requested_size (buffer_size np)))
                 else memory s)
      in s\<lparr>cmd_buff := cb, handle_table := ht, memory := mem\<rparr>)"

text \<open>
  A later call arrives with a command buffer the guest has filled anew: \<open>request\<close>
  replaces the command buffer before the call.
\<close>

definition request :: "(nat \<Rightarrow> u32) \<Rightarrow> ('o, 'h) apt_state \<Rightarrow> ('o, 'h) apt_state" where
  "request cb s = s\<lparr>cmd_buff := cb\<rparr>"

subsection \<open>RelocateSharedFont and GetSharedFont\<close>

text \<open>
  One pass of the loop body of \<open>RelocateSharedFont\<close> at the section its pointer \<open>data\<close>
  (here \<open>data_ptr\<close>) points to: the section's size (0 when no magic matches) and the
  store after the pass. The local struct is the byte image of the section. Sizes and
  field offsets: FINF is 32 bytes with \<open>section_size\<close> at 4, \<open>tglp_offset\<close> at 16,
  \<open>cwdh_offset\<close> at 20, \<open>cmap_offset\<close> at 24; CMAP is 20 bytes with \<open>section_size\<close> at 4
  and \<open>next_cmap_offset\<close> at 16; CWDH is 16 bytes with \<open>section_size\<close> at 4 and
  \<open>next_cwdh_offset\<close> at 12; TGLP is 32 bytes with \<open>section_size\<close> at 4 and
  \<open>sheet_data_offset\<close> at 28.
\<close>

definition relocate_section :: "VAddr \<Rightarrow> VAddr \<Rightarrow> nat \<Rightarrow> host_memory \<Rightarrow> u32 \<times> host_memory" where
  "relocate_section previous_address new_address data_ptr mem =
     (if memcmp_eq mem data_ptr ''FINF'' 4 then
        (let finf = load_bytes mem data_ptr 32;
             section_size = get_u32 finf 4;
             finf = set_u32 finf 24 (get_u32 finf 24 + (new_address - previous_address));
             finf = set_u32 finf 20 (get_u32 finf 20 + (new_address - previous_address));
             finf = set_u32 finf 16 (get_u32 finf 16 + (new_address - previous_address))
         in (section_size, store_bytes mem data_ptr finf))
      else if memcmp_eq mem data_ptr ''CMAP'' 4 then
        (let cmap = load_bytes mem data_ptr 20;
             section_size = get_u32 cmap 4;
             cmap = set_u32 cmap 16 (get_u32 cmap 16 + (new_address - previous_address))
         in (section_size, store_bytes mem data_ptr cmap))
      else if memcmp_eq mem data_ptr ''CWDH'' 4 then
        (let cwdh = load_bytes mem data_ptr 16;
             section_size = get_u32 cwdh 4;
             cwdh = set_u32 cwdh 12 (get_u32 cwdh 12 + (new_address - previous_address))
         in (section_size, store_bytes mem data_ptr cwdh))
      else if memcmp_eq mem data_ptr ''TGLP'' 4 then
        (let tglp = load_bytes mem data_ptr 32;
             section_size = get_u32 tglp 4;
             tglp = set_u32 tglp 28 (get_u32 tglp 28 + (new_address - previous_address))
         in (section_size, store_bytes mem data_ptr tglp))
      else (0, mem))"

text \<open>
  The loop \<open>for (block = 0; block < cfnt.num_blocks; ++block)\<close>, by the number of
  passes left; each pass advances the pointer by the section's size.
\<close>

fun relocate_blocks :: "VAddr \<Rightarrow> VAddr \<Rightarrow> nat \<Rightarrow> nat \<Rightarrow> host_memory \<Rightarrow> host_memory" where
  "relocate_blocks previous_address new_address 0 data_ptr mem = mem"
| "relocate_blocks previous_address new_address (Suc blocks_left) data_ptr mem =
     (case relocate_section previous_address new_address data_ptr mem of
        (section_size, mem') \<Rightarrow>
          relocate_blocks previous_address new_address blocks_left
            (data_ptr + unat section_size) mem')"

text \<open>
  The CFNT header is 20 bytes, \<open>header_size\<close> at offset 6 (16 bits) and \<open>num_blocks\<close> at
  offset 16. Both functions dereference \<open>shared_font_mem\<close> unchecked: with no font
  loaded there is no result (\<open>None\<close>).
\<close>

definition SharedFontStartOffset :: u32 where
  "SharedFontStartOffset = 0x80"

definition RelocateSharedFont ::
  "('o, 'h) kernel \<Rightarrow> VAddr \<Rightarrow> VAddr \<Rightarrow> ('o, 'h) apt_state \<Rightarrow> ('o, 'h) apt_state option" where
  "RelocateSharedFont k previous_address new_address s =
     (case shared_font_mem s of
        None \<Rightarrow> None
      | Some font \<Rightarrow>
          (let data_ptr = SharedMemory_GetPointer k font SharedFontStartOffset;
               cfnt = load_bytes (memory s) data_ptr 20;
               data_ptr = SharedMemory_GetPointer k font
                        (SharedFontStartOffset + ucast (get_u16 cfnt 6));
               mem = relocate_blocks previous_address new_address
                       (unat (get_u32 cfnt 16)) data_ptr (memory s)
           in Some (s\<lparr>memory := mem, shared_font_relocated := True\<rparr>)))"

definition SHARED_FONT_VADDR :: VAddr where
  "SHARED_FONT_VADDR = 0x18000000"

definition GetSharedFont :: "('o, 'h) kernel \<Rightarrow> ('o, 'h) apt_state \<Rightarrow> ('o, 'h) apt_state option" where
  "GetSharedFont k s =
     (case shared_font_mem s of
        None \<Rightarrow> None
      | Some font \<Rightarrow>
          (let target_address =
                 Memory_PhysicalToVirtualAddress k (SharedMemory_linear_heap_phys_address k font)
           in case (if \<not> shared_font_relocated s
                    then RelocateSharedFont k SHARED_FONT_VADDR target_address s
                    else Some s) of
                None \<Rightarrow> None
              | Some s' \<Rightarrow>
                  (let cb = cmd_buff s';
                       cb = cb(0 := IPC_MakeHeader k 0x44 2 2);
                       cb = cb(1 := RESULT_SUCCESS_raw k);
                       cb = cb(2 := target_address);
                       cb = cb(3 := IPC_MoveHandleDesc k)
                   in case handle_table_Create k (handle_table s') font of
                        (handle, ht) \<Rightarrow>
                          Some (s'\<lparr>cmd_buff := cb(4 := handle), handle_table := ht\<rparr>))))"

text \<open>
  A run of \<open>GetSharedFont\<close> calls, one per command buffer the guest presents; it has a
  result when every call has one.
\<close>

fun GetSharedFont_calls ::
  "('o, 'h) kernel \<Rightarrow> (nat \<Rightarrow> u32) list \<Rightarrow> ('o, 'h) apt_state \<Rightarrow> ('o, 'h) apt_state option" where
  "GetSharedFont_calls k [] s = Some s"
| "GetSharedFont_calls k (cb # cbs) s =
     (case GetSharedFont k (request cb s) of
        None \<Rightarrow> None
      | Some s' \<Rightarrow> GetSharedFont_calls k cbs s')"

text \<open>
  \<open>Init\<close> and \<open>Shutdown\<close>, as far as they touch the state above. \<open>font_file\<close> is the
  outcome of opening the font file: the shared memory object created for it and the
  file's bytes, read to the start of that object, or nothing when the file does not
  open. \<open>Init\<close> leaves \<open>shared_font_relocated\<close> alone; \<open>Shutdown\<close> resets it.
\<close>

definition Init ::
  "('o, 'h) kernel \<Rightarrow> ('o \<times> u8 list) option \<Rightarrow> ('o, 'h) apt_state \<Rightarrow> ('o, 'h) apt_state" where
  "Init k font_file s =
     (let s = (case font_file of
                 Some (font, bytes) \<Rightarrow>
                   s\<lparr>shared_font_mem := Some font,
                     memory := store_bytes (memory s) (SharedMemory_GetPointer k font 0) bytes\<rparr>
               | None \<Rightarrow> s\<lparr>shared_font_mem := None\<rparr>)
      in s\<lparr>next_parameter := (next_parameter s)
              \<lparr>signal := SignalType_AppJustStarted k, destination_id := 0x300\<rparr>\<rparr>)"

definition Shutdown :: "('o, 'h) apt_state \<Rightarrow> ('o, 'h) apt_state" where
  "Shutdown s =
     s\<lparr>shared_font_mem := None, shared_font_relocated := False,
       next_parameter := (next_parameter s)\<lparr>object := None\<rparr>\<rparr>"


subsection \<open>Notions for stating the service's properties\<close>

text \<open>
  A section at \<open>p\<close> is relocated by \<open>d\<close> from store \<open>mem\<close> to store \<open>mem'\<close> in the fields
  at the offsets \<open>offs\<close>: each of these 32-bit fields has grown by \<open>d\<close> (modulo \<open>2^32\<close>),
  and every byte outside them is as before.
\<close>

definition section_relocated :: "host_memory \<Rightarrow> host_memory \<Rightarrow> nat \<Rightarrow> nat list \<Rightarrow> u32 \<Rightarrow> bool" where
  "section_relocated mem mem' p offs d \<longleftrightarrow>
     (\<forall>off \<in> set offs. read_u32 mem' (p + off) = read_u32 mem (p + off) + d)
     \<and> (\<forall>a. (\<forall>off \<in> set offs. a < p + off \<or> p + off + 4 \<le> a) \<longrightarrow> mem' a = mem a)"

text \<open>
  The same for a list of 32-bit fields given by their addresses: each has grown by \<open>d\<close>,
  every byte outside them is as before.
\<close>

definition fields_relocated :: "host_memory \<Rightarrow> host_memory \<Rightarrow> nat list \<Rightarrow> u32 \<Rightarrow> bool" where
  "fields_relocated mem mem' addrs d \<longleftrightarrow>
     (\<forall>a \<in> set addrs. read_u32 mem' a = read_u32 mem a + d)
     \<and> (\<forall>b. (\<forall>a \<in> set addrs. b < a \<or> a + 4 \<le> b) \<longrightarrow> mem' b = mem b)"

text \<open>
  The font as the store holds it before relocation. By its magic, the section at \<open>p\<close>
  has offset fields at \<open>section_offsets\<close>, a header struct of \<open>section_header_size\<close> bytes
  and the size \<open>section_size_at\<close> (its \<open>section_size\<close> field; nothing and 0 where no magic
  matches). \<open>font_fields\<close> lists the addresses of the offset fields of the sections that
  \<open>n\<close> steps from \<open>p\<close> visit, each step going on by the section's size. The font is
  well laid out, \<open>font_wf\<close>, when each section visited is at least as long as its header
  struct, so that no section starts inside the header of another.
\<close>

definition section_offsets :: "host_memory \<Rightarrow> nat \<Rightarrow> nat list" where
  "section_offsets mem p =
     (if memcmp_eq mem p ''FINF'' 4 then [16, 20, 24]
      else if memcmp_eq mem p ''CMAP'' 4 then [16]
      else if memcmp_eq mem p ''CWDH'' 4 then [12]
      else if memcmp_eq mem p ''TGLP'' 4 then [28]
      else [])"

definition section_header_size :: "host_memory \<Rightarrow> nat \<Rightarrow> nat" where
  "section_header_size mem p =
     (if memcmp_eq mem p ''FINF'' 4 then 32
      else if memcmp_eq mem p ''CMAP'' 4 then 20
      else if memcmp_eq mem p ''CWDH'' 4 then 16
      else if memcmp_eq mem p ''TGLP'' 4 then 32
      else 0)"

definition section_size_at :: "host_memory \<Rightarrow> nat \<Rightarrow> nat" where
  "section_size_at mem p =
     (if section_offsets mem p = [] then 0 else unat (read_u32 mem (p + 4)))"

fun font_fields :: "host_memory \<Rightarrow> nat \<Rightarrow> nat \<Rightarrow> nat list" where
  "font_fields mem 0 p = []"
| "font_fields mem (Suc n) p =
     map (\<lambda>off. p + off) (section_offsets mem p)
     @ font_fields mem n (p + section_size_at mem p)"

fun font_wf :: "host_memory \<Rightarrow> nat \<Rightarrow> nat \<Rightarrow> bool" where
  "font_wf mem 0 p = True"
| "font_wf mem (Suc n) p =
     (section_header_size mem p \<le> section_size_at mem p
      \<and> font_wf mem n (p + section_size_at mem p))"

text \<open>
  What \<open>RelocateSharedFont\<close> reads from the CFNT header: the number of blocks and the
  address of the first section.
\<close>

definition font_num_blocks :: "('o, 'h) kernel \<Rightarrow> 'o \<Rightarrow> host_memory \<Rightarrow> nat" where
  "font_num_blocks k font mem =
     unat (get_u32 (load_bytes mem (SharedMemory_GetPointer k font SharedFontStartOffset) 20) 16)"

definition font_first_section :: "('o, 'h) kernel \<Rightarrow> 'o \<Rightarrow> host_memory \<Rightarrow> nat" where
  "font_first_section k font mem =
     SharedMemory_GetPointer k font
       (SharedFontStartOffset
        + ucast (get_u16 (load_bytes mem (SharedMemory_GetPointer k font SharedFontStartOffset) 20) 6))"

text \<open>A 32-bit field of the store a call leaves, if the call has a result.\<close>

definition read_after :: "('o, 'h) apt_state option \<Rightarrow> nat \<Rightarrow> u32 option" where
  "read_after result a = (case result of None \<Rightarrow> None | Some s \<Rightarrow> Some (read_u32 (memory s) a))"

text \<open>
  A concrete kernel and state for instances: handles are handed out in sequence, guest
  address \<open>v\<close> lies at host address \<open>0x10000 + v\<close>, the font object's memory starts at
  host address \<open>0x1000\<close> and its physical address \<open>0x20000000\<close> is the virtual address
  \<open>0x14000000\<close>. The font holds a CFNT header (20 bytes, two blocks), a FINF section
  (at host address \<open>0x1094\<close>) and a CMAP section (at \<open>0x10B4\<close>), their offsets based at
  \<open>0x18000000\<close>. The pending parameter has four bytes of data at host address \<open>0x500\<close>.
\<close>

definition example_kernel :: "(nat, nat) kernel" where
  "example_kernel =
     \<lparr>RESULT_SUCCESS_raw = 0,
      IPC_MakeHeader = (\<lambda>command_id regular translate.
         push_bit 16 command_id OR push_bit 6 (regular AND 0x3F) OR (translate AND 0x3F)),
      IPC_MoveHandleDesc = 0,
      handle_table_Create = (\<lambda>next_handle obj. (of_nat next_handle, Suc next_handle)),
      Memory_GetPointer = (\<lambda>vaddr. 0x10000 + unat vaddr),
      Memory_PhysicalToVirtualAddress = (\<lambda>paddr. paddr - 0x0C000000),
      SharedMemory_GetPointer = (\<lambda>font offset. 0x1000 + unat offset),
      SharedMemory_linear_heap_phys_address = (\<lambda>font. 0x20000000),
      SignalType_AppJustStarted = 1\<rparr>"

definition example_font :: "u8 list" where
  "example_font =
     [0x43, 0x46, 0x4E, 0x54,  0xFF, 0xFE,  0x14, 0x00,  0, 0, 0, 3,  0x48, 0, 0, 0,
      2, 0, 0, 0,
      0x46, 0x49, 0x4E, 0x46,  0x20, 0, 0, 0,  1, 10, 0xFF, 0xFF,  1, 2, 3, 1,
      0x10, 0, 0, 0x18,  0x20, 0, 0, 0x18,  0x30, 0, 0, 0x18,  16, 16, 13, 0,
      0x43, 0x4D, 0x41, 0x50,  0x14, 0, 0, 0,  0, 0, 0xFF, 0,  0, 0, 0, 0,
      0x40, 0, 0, 0x18]"

definition example_state :: "(nat, nat) apt_state" where
  "example_state =
     \<lparr>shared_font_mem = Some 7,
      shared_font_relocated = False,
      next_parameter =
        \<lparr>sender_id = 0x101, destination_id = 0x300, signal = 1, buffer_size = 4,
         object = None, data = 0x500\<rparr>,
      cmd_buff = (\<lambda>i. 0)(1 := 0x300, 2 := 0x1000, 65 := 0x20),
      handle_table = 0,
      memory = store_bytes (store_bytes (\<lambda>a. 0) 0x1080 example_font) 0x500 [1, 2, 3, 4]\<rparr>"

text \<open>
  A font file whose only section, a FINF, gives its size as 0, under a header that
  counts three blocks; and the example state with this font in place of the other.
\<close>

definition zero_size_font :: "u8 list" where
  "zero_size_font =
     [0x43, 0x46, 0x4E, 0x54,  0xFF, 0xFE,  0x14, 0x00,  0, 0, 0, 3,  0x34, 0, 0, 0,
      3, 0, 0, 0,
      0x46, 0x49, 0x4E, 0x46,  0, 0, 0, 0,  1, 10, 0xFF, 0xFF,  1, 2, 3, 1,
      0x10, 0, 0, 0x18,  0x20, 0, 0, 0x18,  0x30, 0, 0, 0x18,  16, 16, 13, 0]"

definition zero_size_state :: "(nat, nat) apt_state" where
  "zero_size_state = example_state\<lparr>memory := store_bytes (\<lambda>a. 0) 0x1080 zero_size_font\<rparr>"


section \<open>Audio configuration widget\<close>

text \<open>
  The output-sink combo box is a Qt \<open>QComboBox\<close>: a list of item texts and a current
  index, -1 when nothing is selected. \<open>setCurrentIndex\<close> selects a valid index and
  clears the selection for any other; adding the first item to an empty box selects
  it; \<open>itemText\<close> is the empty string for an index outside the box.
\<close>

record QComboBox =
  items :: "string list"
  currentIndex :: int

definition count :: "QComboBox \<Rightarrow> nat" where
  "count box = length (items box)"

definition itemText :: "QComboBox \<Rightarrow> int \<Rightarrow> string" where
  "itemText box index =
     (if 0 \<le> index \<and> index < int (count box) then items box ! nat index else [])"

definition setCurrentIndex :: "int \<Rightarrow> QComboBox \<Rightarrow> QComboBox" where
  "setCurrentIndex index box =
     box\<lparr>currentIndex := (if 0 \<le> index \<and> index < int (count box) then index else -1)\<rparr>"

definition clear :: "QComboBox \<Rightarrow> QComboBox" where
  "clear box = box\<lparr>items := [], currentIndex := -1\<rparr>"

definition addItem :: "string \<Rightarrow> QComboBox \<Rightarrow> QComboBox" where
  "addItem item box =
     box\<lparr>items := items box @ [item],
         currentIndex := (if items box = [] then 0 else currentIndex box)\<rparr>"

text \<open>
  The search loop of \<open>setConfiguration\<close>, from \<open>index\<close> on: the first item whose text is
  the stored sink id becomes the current one and the loop ends (\<open>break\<close>).
\<close>

function setConfiguration_loop :: "string \<Rightarrow> nat \<Rightarrow> QComboBox \<Rightarrow> QComboBox" where
  "setConfiguration_loop sink_id index box =
     (if index < count box then
        (if itemText box (int index) = sink_id then setCurrentIndex (int index) box
         else setConfiguration_loop sink_id (index + 1) box)
      else box)"
  by pat_completeness auto
termination
  by (relation "measure (\<lambda>(sink_id, index, box). count box - index)") auto

declare setConfiguration_loop.simps [simp del]

definition setConfiguration :: "string \<Rightarrow> QComboBox \<Rightarrow> QComboBox" where
  "setConfiguration sink_id box =
     setCurrentIndex 0 (setConfiguration_loop sink_id 0 box)"

text \<open>
  \<open>applyConfiguration\<close> stores the text of the current item as the sink id: its result
  is the new value of \<open>Settings::values.sink_id\<close>.
\<close>

definition applyConfiguration :: "QComboBox \<Rightarrow> string" where
  "applyConfiguration box = itemText box (currentIndex box)"

text \<open>
  The constructor: the box is emptied, gets the item \<open>auto\<close> and one item per available
  sink (the ids of \<open>AudioCore::g_sink_details\<close>), then \<open>setConfiguration\<close> runs.
\<close>

definition ConfigureAudio :: "string list \<Rightarrow> string \<Rightarrow> QComboBox \<Rightarrow> QComboBox" where
  "ConfigureAudio g_sink_details sink_id box =
     setConfiguration sink_id
       (fold addItem g_sink_details (addItem ''auto'' (clear box)))"


section \<open>Code cache and invalidation\<close>

text \<open>
  Modelled from the spec: the Code Cache, its Compiled Blocks, \<open>CompileBlock\<close>,
  \<open>InvalidateRange\<close> and the Dispatcher's lookup are not among the sources. The spec's
  words: the cache maps a guest address to a Compiled Block, at most one per entry
  address; a block owns a buffer of host code, has patch points for branch targets not
  yet compiled and links to successors once patched; a branch whose successor is
  compiled is patched to jump directly into it, the others target the Dispatcher's
  re-entry stub and are patched once the successor is compiled; on a guest write
  overlapping a block's source instruction span "that block is evicted, and every other
  block whose code directly jumps into it is also evicted (or defensively re-patched to
  the dispatcher re-entry stub)". The model re-patches. Blocks and their chain edges are
  held "via an arena of Compiled Blocks indexed by guest address, with chain edges as
  indices".
\<close>

text \<open>
  A block: the host code buffer it owns (a buffer is handed out once), the guest span it
  was compiled from (\<open>guest_length\<close> bytes from \<open>guest_start\<close>), the targets of its exits
  that go through the re-entry stub (\<open>patch_points\<close>) and of those patched into direct
  jumps (\<open>linked\<close>).
\<close>

record CompiledBlock =
  code_buffer :: nat
  guest_start :: u32
  guest_length :: nat
  patch_points :: "u32 list"
  linked :: "u32 list"

record CodeCache =
  blocks :: "CompiledBlock list"
  next_buffer :: nat

definition empty_cache :: CodeCache where
  "empty_cache = \<lparr>blocks = [], next_buffer = 0\<rparr>"

definition Lookup :: "CodeCache \<Rightarrow> u32 \<Rightarrow> CompiledBlock option" where
  "Lookup cache pc = find (\<lambda>b. guest_start b = pc) (blocks cache)"

text \<open>The write of \<open>len\<close> bytes at \<open>address\<close> overlaps the block's span.\<close>

definition overlaps :: "u32 \<Rightarrow> nat \<Rightarrow> CompiledBlock \<Rightarrow> bool" where
  "overlaps address len b \<longleftrightarrow>
     unat address < unat (guest_start b) + guest_length b
     \<and> unat (guest_start b) < unat address + len"

definition repatch_to_stub :: "u32 list \<Rightarrow> CompiledBlock \<Rightarrow> CompiledBlock" where
  "repatch_to_stub evicted b =
     b\<lparr>patch_points := patch_points b @ filter (\<lambda>t. t \<in> set evicted) (linked b),
       linked := filter (\<lambda>t. t \<notin> set evicted) (linked b)\<rparr>"

definition InvalidateRange :: "u32 \<Rightarrow> nat \<Rightarrow> CodeCache \<Rightarrow> CodeCache" where
  "InvalidateRange address len cache =
     (let evicted = map guest_start (filter (overlaps address len) (blocks cache));
          kept = filter (\<lambda>b. \<not> overlaps address len b) (blocks cache)
      in cache\<lparr>blocks := map (repatch_to_stub evicted) kept\<rparr>)"

text \<open>
  Lazy linking: once the block at \<open>address\<close> exists, the patch points that wait for it
  become direct jumps.
\<close>

definition link_to :: "u32 \<Rightarrow> CompiledBlock \<Rightarrow> CompiledBlock" where
  "link_to address b =
     b\<lparr>patch_points := filter (\<lambda>t. t \<noteq> address) (patch_points b),
       linked := linked b @ filter (\<lambda>t. t = address) (patch_points b)\<rparr>"

text \<open>
  \<open>CompileBlock\<close> installs a block for \<open>address\<close> in a fresh buffer. What decoding found
  there is given: the length of the guest code and the targets of the block's exits.
\<close>

definition CompileBlock :: "u32 \<Rightarrow> nat \<Rightarrow> u32 list \<Rightarrow> CodeCache \<Rightarrow> CodeCache" where
  "CompileBlock address len exits cache =
     (let compiled = (\<lambda>t. t = address \<or> Lookup cache t \<noteq> None);
          b = \<lparr>code_buffer = next_buffer cache, guest_start = address, guest_length = len,
               patch_points = filter (\<lambda>t. \<not> compiled t) exits,
               linked = filter compiled exits\<rparr>
      in \<lparr>blocks = b # map (link_to address) (blocks cache),
          next_buffer = Suc (next_buffer cache)\<rparr>)"

text \<open>
  What happens to the cache: the Dispatcher reaches a guest address (a hit leaves the
  cache as it is, a miss compiles), or the guest writes memory (\<open>InvalidateRange\<close>).
\<close>

datatype cache_event = Reach u32 nat "u32 list" | GuestWrite u32 nat

fun cache_step :: "cache_event \<Rightarrow> CodeCache \<Rightarrow> CodeCache" where
  "cache_step (Reach pc len exits) cache =
     (case Lookup cache pc of
        Some b \<Rightarrow> cache
      | None \<Rightarrow> CompileBlock pc len exits cache)"
| "cache_step (GuestWrite address len) cache = InvalidateRange address len cache"

definition run_events :: "cache_event list \<Rightarrow> CodeCache \<Rightarrow> CodeCache" where
  "run_events events cache = fold cache_step events cache"


text \<open>
  Notions for the proofs: the cache is well formed (one block per entry address, one
  per buffer, every buffer handed out before \<open>next_buffer\<close>); a buffer is retired (handed
  out, and no cached block owns it).
\<close>

definition cache_inv :: "CodeCache \<Rightarrow> bool" where
  "cache_inv cache \<longleftrightarrow>
     distinct (map guest_start (blocks cache))
     \<and> distinct (map code_buffer (blocks cache))
     \<and> (\<forall>b \<in> set (blocks cache). code_buffer b < next_buffer cache)"

definition buffer_retired :: "nat \<Rightarrow> CodeCache \<Rightarrow> bool" where
  "buffer_retired buf cache \<longleftrightarrow>
     buf < next_buffer cache \<and> (\<forall>b \<in> set (blocks cache). code_buffer b \<noteq> buf)"



section \<open>Properties of the ABI descriptor\<close>

lemma bit_BitSet32_fold:
  "bit (fold (\<lambda>b m_val. m_val OR push_bit b 1) init (m :: 32 word)) n
     \<longleftrightarrow> bit m n \<or> (n < 32 \<and> n \<in> set init)"
  by (induction init arbitrary: m) (auto simp: bit_simps)

lemma bit_BitSet32_of:
  "bit (BitSet32_of init) n \<longleftrightarrow> n < 32 \<and> n \<in> set init"
  unfolding BitSet32_of_def using bit_BitSet32_fold [of init 0 n] by simp

lemma abi_param_regs_caller_saved:
  assumes "r \<in> set (abi_param_regs p) \<union> {ABI_RETURN}" and "num r < 32"
  shows "bit (ABI_ALL_CALLER_SAVED num p) (num r)"
proof (cases p)
  case Windows64
  with assms show ?thesis
    by (auto simp: abi_param_regs_def ABI_RETURN_def bit_BitSet32_of)
next
  case Unix64
  with assms show ?thesis
    by (auto simp: abi_param_regs_def ABI_RETURN_def bit_BitSet32_of bit_simps)
qed

lemma abi_sets_x64_encoding:
  "ABI_ALL_CALLER_SAVED x64_encoding Windows64 = 0x003f0f07"
  "ABI_ALL_CALLEE_SAVED x64_encoding Windows64 = 0xffc0f0f8"
  "ABI_ALL_CALLER_SAVED x64_encoding Unix64 = 0xffff0fc7"
  "ABI_ALL_CALLEE_SAVED x64_encoding Unix64 = 0x0000f038"
  by (simp_all add: ABI_ALL_CALLEE_SAVED_def BitSet32_of_def ABI_ALL_FPRS_def)

text \<open>
  C3. On both platforms the callee-saved set is the bitwise complement of the
  caller-saved set within the 32-bit register bit set, whatever the register numbering:
  the two sets are disjoint, together they fill all 32 bits, which are the 16
  general-purpose bits (low half) and the 16 XMM bits (high half), and at every bit
  position a register is callee-saved exactly when it is not caller-saved.
\<close>

theorem abi_callee_saved_is_complement:
  "ABI_ALL_CALLEE_SAVED num p = NOT (ABI_ALL_CALLER_SAVED num p)
   \<and> ABI_ALL_CALLER_SAVED num p AND ABI_ALL_CALLEE_SAVED num p = 0
   \<and> ABI_ALL_CALLER_SAVED num p OR ABI_ALL_CALLEE_SAVED num p = 0xffffffff
   \<and> ABI_ALL_GPRS OR ABI_ALL_FPRS = 0xffffffff
   \<and> ABI_ALL_GPRS AND ABI_ALL_FPRS = 0
   \<and> (\<forall>i. bit (ABI_ALL_CALLEE_SAVED num p) i
            = (i < 32 \<and> \<not> bit (ABI_ALL_CALLER_SAVED num p) i))"
proof -
  have "x OR NOT x = 0xffffffff" for x :: "32 word"
    by simp
  moreover have "bit (NOT x) i = (i < 32 \<and> \<not> bit x i)" for x :: "32 word" and i
    by (auto simp: bit_simps)
  ultimately show ?thesis
    by (simp add: ABI_ALL_CALLEE_SAVED_def ABI_ALL_GPRS_def ABI_ALL_FPRS_def)
qed

text \<open>
  C4. On both platforms every argument register the platform defines (four on Windows,
  six on Unix) and the return register RAX is in the caller-saved set, for every
  register numbering that places the register inside the bit set.
\<close>

theorem abi_params_and_return_caller_saved:
  "r \<in> set (abi_param_regs p) \<union> {ABI_RETURN} \<Longrightarrow> num r < 32
     \<Longrightarrow> bit (ABI_ALL_CALLER_SAVED num p) (num r)
       \<and> \<not> bit (ABI_ALL_CALLEE_SAVED num p) (num r)"
  using abi_param_regs_caller_saved [of r p num]
  by (simp add: ABI_ALL_CALLEE_SAVED_def bit_simps)

theorem abi_params_and_return_caller_saved_witness:
  "abi_param_regs Windows64 = [RCX, RDX, R8, R9]
   \<and> abi_param_regs Unix64 = [RDI, RSI, RDX, RCX, R8, R9]
   \<and> x64_encoding RDI < 32
   \<and> bit (ABI_ALL_CALLER_SAVED x64_encoding Unix64) (x64_encoding RDI)
   \<and> \<not> bit (ABI_ALL_CALLEE_SAVED x64_encoding Unix64) (x64_encoding RDI)
   \<and> bit (ABI_ALL_CALLER_SAVED x64_encoding Windows64) (x64_encoding R9)
   \<and> bit (ABI_ALL_CALLER_SAVED x64_encoding Windows64) (x64_encoding ABI_RETURN)"
  using abi_params_and_return_caller_saved [of RDI Unix64 x64_encoding]
    abi_params_and_return_caller_saved [of R9 Windows64 x64_encoding]
    abi_params_and_return_caller_saved [of ABI_RETURN Windows64 x64_encoding]
  by (simp add: abi_param_regs_def ABI_RETURN_def)


section \<open>Properties of the interpreter-only handlers\<close>

lemma run_emitted_append:
  "run_emitted InterpretOne run_native (xs @ ys) ps
     = run_emitted InterpretOne run_native ys (run_emitted InterpretOne run_native xs ps)"
proof (induction xs arbitrary: ps)
  case Nil
  show ?case by simp
next
  case (Cons x xs)
  then show ?case by (cases x) simp_all
qed

lemma interpreter_only_handler_body:
  "h \<in> set interpreter_only_handlers \<Longrightarrow> h jit = CompileInterpretInstruction jit"
  by (auto simp: interpreter_only_handlers_def JitX64_QADD_def JitX64_QSUB_def
      JitX64_QDADD_def JitX64_QDSUB_def JitX64_REV_def JitX64_REV16_def JitX64_REVSH_def
      JitX64_USAD8_def JitX64_USADA8_def)

text \<open>
  C2. Compiling an instruction of any of the nine interpreter-only classes (QADD, QSUB,
  QDADD, QDSUB, REV, REV16, REVSH, USAD8, USADA8) is \<open>CompileInterpretInstruction\<close>: it
  appends one interpreter call-out for the current instruction to the emitted code and
  no native code, it has no failure outcome, and running the emitted code changes the
  Processor State exactly as the interpreter does on that instruction.
\<close>

theorem interpreter_only_emits_callout:
  "h \<in> set interpreter_only_handlers \<Longrightarrow>
     h jit = CompileInterpretInstruction jit
     \<and> emitted_code (h jit)
         = emitted_code jit @ [InterpreterCallOut (current_instruction jit)]
     \<and> current_instruction (h jit) = current_instruction jit
     \<and> run_emitted InterpretOne run_native (emitted_code (h jit)) ps
         = InterpretOne (current_instruction jit)
             (run_emitted InterpretOne run_native (emitted_code jit) ps)"
  using interpreter_only_handler_body [of h jit]
  by (simp add: CompileInterpretInstruction_def run_emitted_append)

theorem interpreter_only_emits_callout_witness:
  "JitX64_REV \<in> set interpreter_only_handlers
   \<and> emitted_code (JitX64_REV \<lparr>current_instruction = (0xE6BF0F31 :: 32 word), emitted_code = []\<rparr>)
       = [InterpreterCallOut 0xE6BF0F31]
   \<and> run_emitted (\<lambda>i ps. i # ps) (\<lambda>bytes ps. ps)
        (emitted_code (JitX64_REV \<lparr>current_instruction = (0xE6BF0F31 :: 32 word), emitted_code = []\<rparr>)) []
       = [0xE6BF0F31]"
  using interpreter_only_emits_callout [of JitX64_REV
      "\<lparr>current_instruction = (0xE6BF0F31 :: 32 word), emitted_code = []\<rparr>"
      "\<lambda>i ps. i # ps" "\<lambda>bytes ps. ps" "[]"]
  by (simp add: interpreter_only_handlers_def JitX64_REV_def CompileInterpretInstruction_def)



section \<open>Properties of the APT parameter functions\<close>

lemma length_load_bytes [simp]: "length (load_bytes mem p n) = n"
  by (simp add: load_bytes_def)

lemma nth_load_bytes [simp]: "i < n \<Longrightarrow> load_bytes mem p n ! i = mem (p + i)"
  by (simp add: load_bytes_def)

lemma load_store_bytes_same: "load_bytes (store_bytes mem p bs) p (length bs) = bs"
  by (rule nth_equalityI) (simp_all add: store_bytes_def)

lemma load_store_bytes_disjoint:
  "p + length bs \<le> q \<or> q + n \<le> p \<Longrightarrow> load_bytes (store_bytes mem p bs) q n = load_bytes mem q n"
  by (rule nth_equalityI) (auto simp: store_bytes_def)

lemma load_memcpy_dst: "load_bytes (memcpy mem dst src n) dst n = load_bytes mem src n"
  using load_store_bytes_same [of mem dst "load_bytes mem src n"] by (simp add: memcpy_def)

lemma load_memcpy_disjoint:
  "dst + n \<le> q \<or> q + m \<le> dst \<Longrightarrow> load_bytes (memcpy mem dst src n) q m = load_bytes mem q m"
  by (simp add: memcpy_def load_store_bytes_disjoint)

lemma ReceiveParameter_eq_GlanceParameter: "ReceiveParameter k s = GlanceParameter k s"
  by (simp add: ReceiveParameter_def GlanceParameter_def)

lemma GlanceParameter_fields:
  "next_parameter (GlanceParameter k s) = next_parameter s"
  "shared_font_mem (GlanceParameter k s) = shared_font_mem s"
  "shared_font_relocated (GlanceParameter k s) = shared_font_relocated s"
  "memory (GlanceParameter k s) =
     (if data (next_parameter s) \<noteq> 0
      then memcpy (memory s) (Memory_GetPointer k (cmd_buff s 65)) (data (next_parameter s))
             (unat (min (cmd_buff s 2) (buffer_size (next_parameter s))))
      else memory s)"
  by (simp_all add: GlanceParameter_def Let_def split: option.split prod.split)

lemma GlanceParameter_cmd_buff:
  "cmd_buff (GlanceParameter k s) =
     (cmd_buff s)
       (1 := RESULT_SUCCESS_raw k,
        2 := sender_id (next_parameter s),
        3 := signal (next_parameter s),
        4 := buffer_size (next_parameter s),
        5 := 0x10,
        6 := (case object (next_parameter s) of
                None \<Rightarrow> 0
              | Some obj \<Rightarrow> fst (handle_table_Create k (handle_table s) obj)),
        7 := push_bit 14 (buffer_size (next_parameter s)) OR 2,
        8 := cmd_buff s 65)"
  by (simp add: GlanceParameter_def Let_def split: option.split prod.split)

lemma second_call_data:
  assumes "data (next_parameter s) \<noteq> 0"
    and "Memory_GetPointer k (cmd_buff s 65)
           + unat (min (cmd_buff s 2) (buffer_size (next_parameter s)))
           \<le> data (next_parameter s)
         \<or> data (next_parameter s) + unat (min (cb 2) (buffer_size (next_parameter s)))
           \<le> Memory_GetPointer k (cmd_buff s 65)"
  shows "load_bytes (memory (GlanceParameter k (request cb (GlanceParameter k s))))
           (Memory_GetPointer k (cb 65)) (unat (min (cb 2) (buffer_size (next_parameter s))))
         = load_bytes (memory s) (data (next_parameter s))
             (unat (min (cb 2) (buffer_size (next_parameter s))))"
  using assms
  by (simp add: GlanceParameter_fields request_def load_memcpy_dst load_memcpy_disjoint)

text \<open>
  C5. \<open>ReceiveParameter\<close> and \<open>GlanceParameter\<close> give the same state from every state:
  the same command buffer (words 1 to 8 as listed), the same copy of
  \<open>min(buffer_size, next_parameter.buffer_size)\<close> bytes to the destination buffer, and
  \<open>next_parameter\<close> unchanged. A call of either after a \<open>ReceiveParameter\<close> reports the
  same sender, signal and size, and delivers the same parameter bytes where the first
  call's destination did not overlap them.
\<close>

theorem ReceiveParameter_GlanceParameter_equivalent:
  fixes k :: "('o, 'h) kernel" and s :: "('o, 'h) apt_state" and cb :: "nat \<Rightarrow> u32"
  defines "np \<equiv> next_parameter s"
    and "s1 \<equiv> ReceiveParameter k s"
    and "again \<equiv> GlanceParameter k (request cb (ReceiveParameter k s))"
  shows "ReceiveParameter k s = GlanceParameter k s
    \<and> next_parameter (ReceiveParameter k s) = np
    \<and> next_parameter (GlanceParameter k s) = np
    \<and> cmd_buff (GlanceParameter k s) =
        (cmd_buff s)
          (1 := RESULT_SUCCESS_raw k, 2 := sender_id np, 3 := signal np,
           4 := buffer_size np, 5 := 0x10,
           6 := (case object np of
                   None \<Rightarrow> 0
                 | Some obj \<Rightarrow> fst (handle_table_Create k (handle_table s) obj)),
           7 := push_bit 14 (buffer_size np) OR 2, 8 := cmd_buff s 65)
    \<and> memory (GlanceParameter k s) =
        (if data np \<noteq> 0
         then memcpy (memory s) (Memory_GetPointer k (cmd_buff s 65)) (data np)
                (unat (min (cmd_buff s 2) (buffer_size np)))
         else memory s)
    \<and> ReceiveParameter k (request cb s1) = again
    \<and> next_parameter again = np
    \<and> cmd_buff again 2 = cmd_buff s1 2 \<and> cmd_buff again 3 = cmd_buff s1 3
    \<and> cmd_buff again 4 = cmd_buff s1 4 \<and> cmd_buff again 5 = cmd_buff s1 5
    \<and> cmd_buff again 7 = cmd_buff s1 7
    \<and> (data np \<noteq> 0
        \<and> (Memory_GetPointer k (cmd_buff s 65) + unat (min (cmd_buff s 2) (buffer_size np))
              \<le> data np
           \<or> data np + unat (min (cb 2) (buffer_size np))
              \<le> Memory_GetPointer k (cmd_buff s 65))
        \<longrightarrow> load_bytes (memory again) (Memory_GetPointer k (cb 65))
              (unat (min (cb 2) (buffer_size np)))
            = load_bytes (memory s) (data np) (unat (min (cb 2) (buffer_size np))))"
  unfolding np_def s1_def again_def
  using second_call_data [of s k cb]
  by (simp add: ReceiveParameter_eq_GlanceParameter GlanceParameter_fields
      GlanceParameter_cmd_buff request_def)

theorem ReceiveParameter_GlanceParameter_equivalent_witness:
  "ReceiveParameter example_kernel example_state = GlanceParameter example_kernel example_state
   \<and> data (next_parameter example_state) \<noteq> 0
   \<and> load_bytes
       (memory (GlanceParameter example_kernel
          (request ((\<lambda>i. 0)(2 := 3, 65 := 0x40)) (ReceiveParameter example_kernel example_state))))
       0x10040 3
     = [1, 2, 3]"
proof -
  let ?cb = "(\<lambda>i. 0)(2 := 3, 65 := 0x40) :: nat \<Rightarrow> u32"
  let ?np = "next_parameter example_state"
  note inst = ReceiveParameter_GlanceParameter_equivalent [of example_kernel example_state ?cb]
  have src: "data ?np = 0x500"
    by (simp add: example_state_def)
  have dst1: "Memory_GetPointer example_kernel (cmd_buff example_state 65) = 0x10020"
    by (simp add: example_kernel_def example_state_def)
  have dst2: "Memory_GetPointer example_kernel (?cb 65) = 0x10040"
    by (simp add: example_kernel_def)
  have n2: "unat (min (?cb 2) (buffer_size ?np)) = 3"
    by (simp add: example_state_def)
  have held: "load_bytes (memory example_state) 0x500 3 = [1, 2, 3]"
    by (simp add: example_state_def load_bytes_def store_bytes_def numeral_3_eq_3)
  from inst have eq: "ReceiveParameter example_kernel example_state
      = GlanceParameter example_kernel example_state"
    by blast
  from inst have "data ?np \<noteq> 0
        \<and> (Memory_GetPointer example_kernel (cmd_buff example_state 65)
              + unat (min (cmd_buff example_state 2) (buffer_size ?np)) \<le> data ?np
           \<or> data ?np + unat (min (?cb 2) (buffer_size ?np))
              \<le> Memory_GetPointer example_kernel (cmd_buff example_state 65))
        \<longrightarrow> load_bytes (memory (GlanceParameter example_kernel
                (request ?cb (ReceiveParameter example_kernel example_state))))
              (Memory_GetPointer example_kernel (?cb 65)) (unat (min (?cb 2) (buffer_size ?np)))
            = load_bytes (memory example_state) (data ?np) (unat (min (?cb 2) (buffer_size ?np)))"
    by blast
  then have "load_bytes (memory (GlanceParameter example_kernel
                (request ?cb (ReceiveParameter example_kernel example_state)))) 0x10040 3
            = [1, 2, 3]"
    unfolding src dst1 dst2 n2 held by simp
  with eq src show ?thesis by simp
qed


section \<open>Properties of the shared font relocation\<close>

lemma u32_le_bytes:
  "u32_le (ucast v) (ucast (drop_bit 8 v)) (ucast (drop_bit 16 v)) (ucast (drop_bit 24 v)) = v"
proof (rule bit_word_eqI)
  fix n :: nat
  assume "n < LENGTH(32)"
  then consider "n < 8" | "8 \<le> n" "n < 16" | "16 \<le> n" "n < 24" | "24 \<le> n" "n < 32"
    by fastforce
  then show "bit (u32_le (ucast v) (ucast (drop_bit 8 v)) (ucast (drop_bit 16 v))
                  (ucast (drop_bit 24 v))) n = bit v n"
    by cases (auto simp: u32_le_def bit_simps)
qed

lemma length_set_u32 [simp]: "length (set_u32 obj off v) = length obj"
  by (simp add: set_u32_def)

lemma get_set_u32_same: "off + 3 < length obj \<Longrightarrow> get_u32 (set_u32 obj off v) off = v"
  by (simp add: get_u32_def set_u32_def u32_le_bytes)

lemma get_set_u32_other:
  "off' + 4 \<le> off \<or> off + 4 \<le> off' \<Longrightarrow> get_u32 (set_u32 obj off v) off' = get_u32 obj off'"
  by (auto simp: get_u32_def set_u32_def)

lemma nth_set_u32_other:
  "i < off \<or> off + 4 \<le> i \<Longrightarrow> set_u32 obj off v ! i = obj ! i"
  by (auto simp: set_u32_def)

lemma read_u32_store_bytes:
  "off + 4 \<le> length bs \<Longrightarrow> read_u32 (store_bytes mem p bs) (p + off) = get_u32 bs off"
  by (simp add: read_u32_def get_u32_def store_bytes_def)

lemma get_u32_load_bytes:
  "off + 4 \<le> n \<Longrightarrow> get_u32 (load_bytes mem p n) off = read_u32 mem (p + off)"
  by (simp add: read_u32_def get_u32_def add.assoc)

lemma store_bytes_frame:
  "length bs = n \<Longrightarrow> (a < p \<or> p + n \<le> a \<or> bs ! (a - p) = mem a)
     \<Longrightarrow> store_bytes mem p bs a = mem a"
  by (auto simp: store_bytes_def)

lemma magic_distinct:
  "map of_char (take 4 ''FINF'') \<noteq> (map of_char (take 4 ''CMAP'') :: u8 list)"
  "map of_char (take 4 ''FINF'') \<noteq> (map of_char (take 4 ''CWDH'') :: u8 list)"
  "map of_char (take 4 ''FINF'') \<noteq> (map of_char (take 4 ''TGLP'') :: u8 list)"
  "map of_char (take 4 ''CMAP'') \<noteq> (map of_char (take 4 ''CWDH'') :: u8 list)"
  "map of_char (take 4 ''CMAP'') \<noteq> (map of_char (take 4 ''TGLP'') :: u8 list)"
  "map of_char (take 4 ''CWDH'') \<noteq> (map of_char (take 4 ''TGLP'') :: u8 list)"
  by simp_all

text \<open>A section with one relocated field: CMAP, CWDH and TGLP.\<close>

lemma one_field_relocated:
  fixes mem :: host_memory and p n off :: nat and d :: u32
  assumes "off + 4 \<le> n"
  defines "obj \<equiv> load_bytes mem p n"
  shows "section_relocated mem (store_bytes mem p (set_u32 obj off (get_u32 obj off + d)))
           p [off] d"
  unfolding section_relocated_def
proof (intro conjI allI ballI impI)
  fix off' assume "off' \<in> set [off]"
  then have "off' = off" by simp
  with assms show "read_u32 (store_bytes mem p (set_u32 obj off (get_u32 obj off + d))) (p + off')
      = read_u32 mem (p + off') + d"
    by (simp add: read_u32_store_bytes get_set_u32_same get_u32_load_bytes)
next
  fix a assume "\<forall>off' \<in> set [off]. a < p + off' \<or> p + off' + 4 \<le> a"
  then have out: "a < p + off \<or> p + off + 4 \<le> a" by simp
  show "store_bytes mem p (set_u32 obj off (get_u32 obj off + d)) a = mem a"
  proof (rule store_bytes_frame [where n = n])
    show "length (set_u32 obj off (get_u32 obj off + d)) = n"
      by (simp add: obj_def)
    show "a < p \<or> p + n \<le> a \<or> set_u32 obj off (get_u32 obj off + d) ! (a - p) = mem a"
    proof (cases "p \<le> a \<and> a < p + n")
      case True
      with out have "a - p < off \<or> off + 4 \<le> a - p" by auto
      then have "set_u32 obj off (get_u32 obj off + d) ! (a - p) = obj ! (a - p)"
        by (rule nth_set_u32_other)
      moreover from True have "a - p < n" "p + (a - p) = a" by auto
      ultimately show ?thesis by (simp add: obj_def)
    next
      case False
      then show ?thesis by auto
    qed
  qed
qed

lemma finf_relocated:
  fixes mem :: host_memory and p :: nat and d :: u32
  defines "obj \<equiv> load_bytes mem p 32"
  defines "obj1 \<equiv> set_u32 obj 24 (get_u32 obj 24 + d)"
  defines "obj2 \<equiv> set_u32 obj1 20 (get_u32 obj1 20 + d)"
  defines "obj3 \<equiv> set_u32 obj2 16 (get_u32 obj2 16 + d)"
  shows "section_relocated mem (store_bytes mem p obj3) p [16, 20, 24] d"
  unfolding section_relocated_def
proof (intro conjI allI ballI impI)
  have len: "length obj = 32" "length obj1 = 32" "length obj2 = 32" "length obj3 = 32"
    by (simp_all add: obj_def obj1_def obj2_def obj3_def)
  have f24: "get_u32 obj3 24 = read_u32 mem (p + 24) + d"
    using len
    by (simp add: obj3_def obj2_def obj1_def get_set_u32_other get_set_u32_same
        get_u32_load_bytes [of 24 32 mem p, folded obj_def])
  have f20: "get_u32 obj3 20 = read_u32 mem (p + 20) + d"
    using len
    by (simp add: obj3_def obj2_def obj1_def get_set_u32_other get_set_u32_same
        get_u32_load_bytes [of 20 32 mem p, folded obj_def])
  have f16: "get_u32 obj3 16 = read_u32 mem (p + 16) + d"
    using len
    by (simp add: obj3_def obj2_def obj1_def get_set_u32_other get_set_u32_same
        get_u32_load_bytes [of 16 32 mem p, folded obj_def])
  {
    fix off assume "off \<in> set [16, 20, 24 :: nat]"
    then consider "off = 16" | "off = 20" | "off = 24" by auto
    then show "read_u32 (store_bytes mem p obj3) (p + off) = read_u32 mem (p + off) + d"
      using len f16 f20 f24 by cases (simp_all add: read_u32_store_bytes)
  }
  {
    fix a assume "\<forall>off \<in> set [16, 20, 24 :: nat]. a < p + off \<or> p + off + 4 \<le> a"
    then have out: "a < p + 16 \<or> p + 28 \<le> a" by auto
    show "store_bytes mem p obj3 a = mem a"
    proof (rule store_bytes_frame [where n = 32])
      show "length obj3 = 32" by (rule len)
      show "a < p \<or> p + 32 \<le> a \<or> obj3 ! (a - p) = mem a"
      proof (cases "p \<le> a \<and> a < p + 32")
        case True
        with out have i: "a - p < 16 \<or> 28 \<le> a - p" by auto
        then have "obj3 ! (a - p) = obj ! (a - p)"
          unfolding obj3_def obj2_def obj1_def
          by (auto simp: nth_set_u32_other)
        moreover from True have "a - p < 32" "p + (a - p) = a" by auto
        ultimately show ?thesis by (simp add: obj_def)
      next
        case False
        then show ?thesis by auto
      qed
    qed
  }
qed

lemma relocate_section_FINF:
  "memcmp_eq mem p ''FINF'' 4 \<Longrightarrow>
     fst (relocate_section prev new p mem) = read_u32 mem (p + 4)
     \<and> section_relocated mem (snd (relocate_section prev new p mem)) p [16, 20, 24] (new - prev)"
  using finf_relocated [of mem p "new - prev"]
  by (simp add: relocate_section_def Let_def get_u32_load_bytes)

lemma relocate_section_CMAP:
  "memcmp_eq mem p ''CMAP'' 4 \<Longrightarrow>
     fst (relocate_section prev new p mem) = read_u32 mem (p + 4)
     \<and> section_relocated mem (snd (relocate_section prev new p mem)) p [16] (new - prev)"
  using one_field_relocated [of 16 20 mem p "new - prev"] magic_distinct
  by (simp add: relocate_section_def Let_def get_u32_load_bytes memcmp_eq_def)

lemma relocate_section_CWDH:
  "memcmp_eq mem p ''CWDH'' 4 \<Longrightarrow>
     fst (relocate_section prev new p mem) = read_u32 mem (p + 4)
     \<and> section_relocated mem (snd (relocate_section prev new p mem)) p [12] (new - prev)"
  using one_field_relocated [of 12 16 mem p "new - prev"] magic_distinct
  by (simp add: relocate_section_def Let_def get_u32_load_bytes memcmp_eq_def)

lemma relocate_section_TGLP:
  "memcmp_eq mem p ''TGLP'' 4 \<Longrightarrow>
     fst (relocate_section prev new p mem) = read_u32 mem (p + 4)
     \<and> section_relocated mem (snd (relocate_section prev new p mem)) p [28] (new - prev)"
  using one_field_relocated [of 28 32 mem p "new - prev"] magic_distinct
  by (simp add: relocate_section_def Let_def get_u32_load_bytes memcmp_eq_def)

lemma relocate_section_other:
  "\<not> memcmp_eq mem p ''FINF'' 4 \<Longrightarrow> \<not> memcmp_eq mem p ''CMAP'' 4
   \<Longrightarrow> \<not> memcmp_eq mem p ''CWDH'' 4 \<Longrightarrow> \<not> memcmp_eq mem p ''TGLP'' 4
   \<Longrightarrow> relocate_section prev new p mem = (0, mem)"
  by (simp add: relocate_section_def)

lemma RelocateSharedFont_result:
  assumes "shared_font_mem s = Some font"
  shows "\<exists>mem. RelocateSharedFont k prev new s
           = Some (s\<lparr>memory := mem, shared_font_relocated := True\<rparr>)"
  using assms by (simp add: RelocateSharedFont_def Let_def) blast

lemma GetSharedFont_when_relocated:
  assumes "shared_font_mem s = Some font" and "shared_font_relocated s"
  shows "\<exists>s1. GetSharedFont k s = Some s1 \<and> memory s1 = memory s
           \<and> shared_font_relocated s1 \<and> shared_font_mem s1 = Some font
           \<and> next_parameter s1 = next_parameter s
           \<and> cmd_buff s1 2 = Memory_PhysicalToVirtualAddress k
                                (SharedMemory_linear_heap_phys_address k font)"
  using assms by (simp add: GetSharedFont_def Let_def split: prod.split)

lemma GetSharedFont_first:
  assumes "shared_font_mem s = Some font" and "\<not> shared_font_relocated s"
  shows "\<exists>s1 sr. GetSharedFont k s = Some s1
           \<and> RelocateSharedFont k SHARED_FONT_VADDR
                (Memory_PhysicalToVirtualAddress k (SharedMemory_linear_heap_phys_address k font)) s
               = Some sr
           \<and> shared_font_relocated sr
           \<and> memory s1 = memory sr
           \<and> shared_font_relocated s1 \<and> shared_font_mem s1 = Some font
           \<and> next_parameter s1 = next_parameter s
           \<and> cmd_buff s1 2 = Memory_PhysicalToVirtualAddress k
                                (SharedMemory_linear_heap_phys_address k font)"
proof -
  from RelocateSharedFont_result [OF assms(1)] obtain mem where
    "RelocateSharedFont k SHARED_FONT_VADDR
       (Memory_PhysicalToVirtualAddress k (SharedMemory_linear_heap_phys_address k font)) s
     = Some (s\<lparr>memory := mem, shared_font_relocated := True\<rparr>)"
    by blast
  with assms show ?thesis
    by (simp add: GetSharedFont_def Let_def split: prod.split)
qed

lemma GetSharedFont_calls_when_relocated:
  "shared_font_mem s = Some font \<Longrightarrow> shared_font_relocated s
   \<Longrightarrow> \<exists>s2. GetSharedFont_calls k cbs s = Some s2 \<and> memory s2 = memory s
          \<and> shared_font_relocated s2 \<and> shared_font_mem s2 = Some font"
proof (induction cbs arbitrary: s)
  case Nil
  then show ?case by simp
next
  case (Cons cb cbs)
  have "shared_font_mem (request cb s) = Some font" "shared_font_relocated (request cb s)"
    using Cons.prems by (simp_all add: request_def)
  from GetSharedFont_when_relocated [OF this, of k] obtain s1 where
    s1: "GetSharedFont k (request cb s) = Some s1" "memory s1 = memory (request cb s)"
      "shared_font_relocated s1" "shared_font_mem s1 = Some font"
    by blast
  from Cons.IH [OF s1(4) s1(3)] obtain s2 where
    "GetSharedFont_calls k cbs s1 = Some s2" "memory s2 = memory s1"
    "shared_font_relocated s2" "shared_font_mem s2 = Some font"
    by blast
  with s1 show ?case by (simp add: request_def)
qed

lemma section_relocated_fields:
  "section_relocated mem mem' p offs d
     \<longleftrightarrow> fields_relocated mem mem' (map (\<lambda>off. p + off) offs) d"
  by (auto simp: section_relocated_def fields_relocated_def add.assoc)

lemma relocate_section_pass:
  "unat (fst (relocate_section prev new p mem)) = section_size_at mem p
   \<and> fields_relocated mem (snd (relocate_section prev new p mem))
        (map (\<lambda>off. p + off) (section_offsets mem p)) (new - prev)"
proof -
  consider (finf) "memcmp_eq mem p ''FINF'' 4"
    | (cmap) "\<not> memcmp_eq mem p ''FINF'' 4" "memcmp_eq mem p ''CMAP'' 4"
    | (cwdh) "\<not> memcmp_eq mem p ''FINF'' 4" "\<not> memcmp_eq mem p ''CMAP'' 4"
        "memcmp_eq mem p ''CWDH'' 4"
    | (tglp) "\<not> memcmp_eq mem p ''FINF'' 4" "\<not> memcmp_eq mem p ''CMAP'' 4"
        "\<not> memcmp_eq mem p ''CWDH'' 4" "memcmp_eq mem p ''TGLP'' 4"
    | (none) "\<not> memcmp_eq mem p ''FINF'' 4" "\<not> memcmp_eq mem p ''CMAP'' 4"
        "\<not> memcmp_eq mem p ''CWDH'' 4" "\<not> memcmp_eq mem p ''TGLP'' 4"
    by blast
  then show ?thesis
  proof cases
    case finf
    with relocate_section_FINF [OF finf, of prev new] show ?thesis
      by (simp add: section_size_at_def section_offsets_def section_relocated_fields)
  next
    case cmap
    with relocate_section_CMAP [OF cmap(2), of prev new] show ?thesis
      by (simp add: section_size_at_def section_offsets_def section_relocated_fields)
  next
    case cwdh
    with relocate_section_CWDH [OF cwdh(3), of prev new] show ?thesis
      by (simp add: section_size_at_def section_offsets_def section_relocated_fields)
  next
    case tglp
    with relocate_section_TGLP [OF tglp(4), of prev new] show ?thesis
      by (simp add: section_size_at_def section_offsets_def section_relocated_fields)
  next
    case none
    with relocate_section_other [OF none, of prev new] show ?thesis
      by (simp add: section_size_at_def section_offsets_def fields_relocated_def)
  qed
qed

lemma section_offsets_in_header:
  "off \<in> set (section_offsets mem p) \<Longrightarrow> off + 4 \<le> section_header_size mem p"
  by (auto simp: section_offsets_def section_header_size_def split: if_splits)

lemma load_bytes_agree:
  "(\<And>b. q \<le> b \<Longrightarrow> m1 b = m b) \<Longrightarrow> q \<le> r \<Longrightarrow> load_bytes m1 r n = load_bytes m r n"
  by (simp add: load_bytes_def)

lemma read_u32_agree:
  "(\<And>b. q \<le> b \<Longrightarrow> m1 b = m b) \<Longrightarrow> q \<le> r \<Longrightarrow> read_u32 m1 r = read_u32 m r"
  by (simp add: read_u32_def load_bytes_agree [of q m1 m r])

lemma section_agree:
  assumes "\<And>b. q \<le> b \<Longrightarrow> m1 b = m b" and "q \<le> r"
  shows "section_offsets m1 r = section_offsets m r"
    and "section_header_size m1 r = section_header_size m r"
    and "section_size_at m1 r = section_size_at m r"
proof -
  have magic: "memcmp_eq m1 r lit 4 = memcmp_eq m r lit 4" for lit
    using load_bytes_agree [OF assms, where n = 4] by (simp add: memcmp_eq_def)
  show offs: "section_offsets m1 r = section_offsets m r"
    by (simp add: section_offsets_def magic)
  show "section_header_size m1 r = section_header_size m r"
    by (simp add: section_header_size_def magic)
  have "read_u32 m1 (r + 4) = read_u32 m (r + 4)"
    using assms by (intro read_u32_agree [of q]) simp_all
  with offs show "section_size_at m1 r = section_size_at m r"
    by (simp add: section_size_at_def)
qed

lemma font_agree:
  "(\<And>b. q \<le> b \<Longrightarrow> m1 b = m b) \<Longrightarrow> q \<le> r
   \<Longrightarrow> font_fields m1 n r = font_fields m n r \<and> font_wf m1 n r = font_wf m n r"
proof (induction n arbitrary: r)
  case 0
  show ?case by simp
next
  case (Suc n)
  note same = section_agree [of q m1 m r, OF Suc.prems(1) Suc.prems(2)]
  have "q \<le> r + section_size_at m r"
    using Suc.prems(2) by simp
  from Suc.IH [OF Suc.prems(1) this] same show ?case
    by simp
qed

lemma font_fields_lower: "a \<in> set (font_fields mem n p) \<Longrightarrow> p \<le> a"
proof (induction n arbitrary: p)
  case 0
  then show ?case by simp
next
  case (Suc n)
  then show ?case by fastforce
qed

lemma read_u32_bytes:
  "(\<And>b. a \<le> b \<Longrightarrow> b < a + 4 \<Longrightarrow> m1 b = m b) \<Longrightarrow> read_u32 m1 a = read_u32 m a"
  by (simp add: read_u32_def get_u32_def)

lemma relocate_blocks_fields:
  "font_wf mem n p
   \<Longrightarrow> fields_relocated mem (relocate_blocks prev new n p mem) (font_fields mem n p) (new - prev)"
proof (induction n arbitrary: mem p)
  case 0
  show ?case by (simp add: fields_relocated_def)
next
  case (Suc n)
  let ?d = "new - prev"
  let ?mem1 = "snd (relocate_section prev new p mem)"
  let ?q = "p + section_size_at mem p"
  let ?F1 = "map (\<lambda>off. p + off) (section_offsets mem p)"
  let ?F2 = "font_fields mem n ?q"
  let ?mem' = "relocate_blocks prev new n ?q ?mem1"
  from Suc.prems have hdr: "section_header_size mem p \<le> section_size_at mem p"
    and wf: "font_wf mem n ?q"
    by simp_all
  from relocate_section_pass [of prev new p mem]
  have size: "unat (fst (relocate_section prev new p mem)) = section_size_at mem p"
    and pass: "fields_relocated mem ?mem1 ?F1 ?d"
    by simp_all
  have run: "relocate_blocks prev new (Suc n) p mem = ?mem'"
    using size by (simp add: case_prod_beta)
  have F1_below: "a + 4 \<le> ?q" if "a \<in> set ?F1" for a
    using that hdr section_offsets_in_header [of _ mem p] by fastforce
  have beyond: "?mem1 b = mem b" if "?q \<le> b" for b
  proof -
    have "\<forall>a \<in> set ?F1. b < a \<or> a + 4 \<le> b"
      using F1_below that by fastforce
    with pass show ?thesis by (simp add: fields_relocated_def)
  qed
  from font_agree [of ?q ?mem1 mem ?q n] beyond
  have same: "font_fields ?mem1 n ?q = ?F2" "font_wf ?mem1 n ?q = font_wf mem n ?q"
    by simp_all
  with wf have "font_wf ?mem1 n ?q" by simp
  from Suc.IH [OF this] same have rest: "fields_relocated ?mem1 ?mem' ?F2 ?d"
    by simp
  have F2_above: "?q \<le> a" if "a \<in> set ?F2" for a
    using that by (rule font_fields_lower)
  have first: "read_u32 ?mem' a = read_u32 mem a + ?d" if a: "a \<in> set ?F1" for a
  proof -
    have "?mem' b = ?mem1 b" if "a \<le> b" "b < a + 4" for b
    proof -
      have "\<forall>a2 \<in> set ?F2. b < a2 \<or> a2 + 4 \<le> b"
        using F1_below [OF a] F2_above that by fastforce
      with rest show ?thesis by (simp add: fields_relocated_def)
    qed
    then have "read_u32 ?mem' a = read_u32 ?mem1 a"
      by (rule read_u32_bytes)
    with pass a show ?thesis by (auto simp: fields_relocated_def)
  qed
  have later: "read_u32 ?mem' a = read_u32 mem a + ?d" if a: "a \<in> set ?F2" for a
  proof -
    from rest a have "read_u32 ?mem' a = read_u32 ?mem1 a + ?d"
      by (simp add: fields_relocated_def)
    moreover have "read_u32 ?mem1 a = read_u32 mem a"
      using beyond F2_above [OF a] by (intro read_u32_bytes) simp
    ultimately show ?thesis by simp
  qed
  have frame: "?mem' b = mem b"
    if "\<forall>a \<in> set (?F1 @ ?F2). b < a \<or> a + 4 \<le> b" for b
  proof -
    from that rest have "?mem' b = ?mem1 b"
      by (simp add: fields_relocated_def)
    moreover from that pass have "?mem1 b = mem b"
      by (simp add: fields_relocated_def)
    ultimately show ?thesis by simp
  qed
  have "fields_relocated mem ?mem' (?F1 @ ?F2) ?d"
    unfolding fields_relocated_def using first later frame by auto
  with run show ?case by simp
qed

lemma RelocateSharedFont_memory:
  assumes "shared_font_mem s = Some font"
  shows "RelocateSharedFont k prev new s
     = Some (s\<lparr>memory := relocate_blocks prev new (font_num_blocks k font (memory s))
                            (font_first_section k font (memory s)) (memory s),
              shared_font_relocated := True\<rparr>)"
  using assms
  by (simp add: RelocateSharedFont_def Let_def font_num_blocks_def font_first_section_def)

text \<open>A FINF section of size 0 is visited by every pass and relocated by each.\<close>

lemma zero_size_FINF_passes:
  "memcmp_eq mem p ''FINF'' 4 \<Longrightarrow> read_u32 mem (p + 4) = 0
   \<Longrightarrow> read_u32 (relocate_blocks prev new n p mem) (p + 24)
       = read_u32 mem (p + 24) + of_nat n * (new - prev)"
proof (induction n arbitrary: mem)
  case 0
  show ?case by simp
next
  case (Suc n)
  let ?mem1 = "snd (relocate_section prev new p mem)"
  from relocate_section_FINF [OF Suc.prems(1), of prev new] Suc.prems(2)
  have size: "fst (relocate_section prev new p mem) = 0"
    and pass: "section_relocated mem ?mem1 p [16, 20, 24] (new - prev)"
    by simp_all
  have keep: "?mem1 b = mem b" if "b < p + 16" for b
    using pass that by (simp add: section_relocated_def)
  have "load_bytes ?mem1 p 4 = load_bytes mem p 4"
    by (rule nth_equalityI) (simp_all add: keep)
  with Suc.prems(1) have magic: "memcmp_eq ?mem1 p ''FINF'' 4"
    by (simp add: memcmp_eq_def)
  have zero: "read_u32 ?mem1 (p + 4) = 0"
    using Suc.prems(2) read_u32_bytes [of "p + 4" ?mem1 mem] keep by simp
  from pass have "read_u32 ?mem1 (p + 24) = read_u32 mem (p + 24) + (new - prev)"
    by (simp add: section_relocated_def)
  with Suc.IH [OF magic zero] size show ?case
    by (simp add: case_prod_beta algebra_simps)
qed

text \<open>
  C9. With a font loaded, \<open>GetSharedFont\<close> always returns and leaves
  \<open>shared_font_relocated\<close> set. Called with the flag set it leaves the store as it is, and
  so does every further run of calls. Called with the flag clear it leaves the store as
  \<open>RelocateSharedFont\<close> from \<open>0x18000000\<close> to the target address does, that is as the
  \<open>num_blocks\<close> passes of the loop from the first section do. One pass adds
  \<open>new_address - previous_address\<close> to the offsets of the section it recognizes where it
  stands, changes no other byte and goes on by that section's size. For a font in which
  every section visited is at least as long as its header struct, the passes together add
  the delta exactly once to every offset of every recognized section and change no other
  byte. \<open>Init\<close> does not touch the flag; \<open>Shutdown\<close> clears it.
\<close>

theorem GetSharedFont_relocates_once:
  fixes k :: "('o, 'h) kernel" and s :: "('o, 'h) apt_state" and font :: 'o
    and mem :: host_memory and p :: nat and prev new :: VAddr
  defines "target \<equiv>
    Memory_PhysicalToVirtualAddress k (SharedMemory_linear_heap_phys_address k font)"
    and "blocks_count \<equiv> font_num_blocks k font (memory s)"
    and "first \<equiv> font_first_section k font (memory s)"
  shows "(shared_font_mem s = Some font \<longrightarrow>
      (\<exists>s1. GetSharedFont k s = Some s1
         \<and> shared_font_relocated s1
         \<and> (if shared_font_relocated s then memory s1 = memory s
            else RelocateSharedFont k SHARED_FONT_VADDR target s
                   = Some (s\<lparr>memory := memory s1, shared_font_relocated := True\<rparr>)
                 \<and> memory s1
                     = relocate_blocks SHARED_FONT_VADDR target blocks_count first (memory s)
                 \<and> (font_wf (memory s) blocks_count first \<longrightarrow>
                      fields_relocated (memory s) (memory s1)
                        (font_fields (memory s) blocks_count first)
                        (target - SHARED_FONT_VADDR)))
         \<and> (\<forall>cbs. \<exists>s2. GetSharedFont_calls k cbs s1 = Some s2
                \<and> memory s2 = memory s1 \<and> shared_font_relocated s2)))
    \<and> unat (fst (relocate_section prev new p mem)) = section_size_at mem p
    \<and> fields_relocated mem (snd (relocate_section prev new p mem))
         (map (\<lambda>off. p + off) (section_offsets mem p)) (new - prev)
    \<and> shared_font_relocated (Init k font_file s) = shared_font_relocated s
    \<and> \<not> shared_font_relocated (Shutdown s)"
proof -
  have calls: "\<exists>s1. GetSharedFont k s = Some s1
         \<and> shared_font_relocated s1
         \<and> (if shared_font_relocated s then memory s1 = memory s
            else RelocateSharedFont k SHARED_FONT_VADDR target s
                   = Some (s\<lparr>memory := memory s1, shared_font_relocated := True\<rparr>)
                 \<and> memory s1
                     = relocate_blocks SHARED_FONT_VADDR target blocks_count first (memory s)
                 \<and> (font_wf (memory s) blocks_count first \<longrightarrow>
                      fields_relocated (memory s) (memory s1)
                        (font_fields (memory s) blocks_count first)
                        (target - SHARED_FONT_VADDR)))
         \<and> (\<forall>cbs. \<exists>s2. GetSharedFont_calls k cbs s1 = Some s2
                \<and> memory s2 = memory s1 \<and> shared_font_relocated s2)"
    if loaded: "shared_font_mem s = Some font"
  proof (cases "shared_font_relocated s")
    case True
    from GetSharedFont_when_relocated [OF loaded True, of k] obtain s1 where
      s1: "GetSharedFont k s = Some s1" "memory s1 = memory s"
        "shared_font_relocated s1" "shared_font_mem s1 = Some font"
      by blast
    with True GetSharedFont_calls_when_relocated [OF s1(4) s1(3), of k]
    show ?thesis by auto
  next
    case False
    let ?mem' = "relocate_blocks SHARED_FONT_VADDR target blocks_count first (memory s)"
    from GetSharedFont_first [OF loaded False, of k] obtain s1 sr where
      s1: "GetSharedFont k s = Some s1"
        "RelocateSharedFont k SHARED_FONT_VADDR target s = Some sr" "memory s1 = memory sr"
        "shared_font_relocated s1" "shared_font_mem s1 = Some font"
      unfolding target_def by blast
    from RelocateSharedFont_memory [OF loaded, of k SHARED_FONT_VADDR target] s1(2)
    have sr: "sr = s\<lparr>memory := ?mem', shared_font_relocated := True\<rparr>"
      by (simp add: blocks_count_def first_def)
    with s1(3) have mem1: "memory s1 = ?mem'"
      by simp
    have "fields_relocated (memory s) (memory s1) (font_fields (memory s) blocks_count first)
        (target - SHARED_FONT_VADDR)"
      if "font_wf (memory s) blocks_count first"
      unfolding mem1 using that by (rule relocate_blocks_fields)
    with False s1 sr mem1 GetSharedFont_calls_when_relocated [OF s1(5) s1(4), of k]
    show ?thesis by auto
  qed
  have init: "shared_font_relocated (Init k font_file s) = shared_font_relocated s"
    by (simp add: Init_def Let_def split: option.split prod.split)
  have shutdown: "\<not> shared_font_relocated (Shutdown s)"
    by (simp add: Shutdown_def)
  from calls init shutdown relocate_section_pass [of prev new p mem]
  show ?thesis by blast
qed

lemma load_bytes_4: "load_bytes mem p 4 = [mem p, mem (p + 1), mem (p + 2), mem (p + 3)]"
proof -
  have "[0..<4] = [0, 1, 2, 3 :: nat]"
    by code_simp
  then show ?thesis
    by (simp add: load_bytes_def)
qed

lemma read_u32_bytes_le:
  "read_u32 mem a = u32_le (mem a) (mem (a + 1)) (mem (a + 2)) (mem (a + 3))"
  by (simp add: read_u32_def get_u32_def)

lemma example_target:
  "Memory_PhysicalToVirtualAddress example_kernel
     (SharedMemory_linear_heap_phys_address example_kernel 7) = 0x14000000"
  by (simp add: example_kernel_def)

lemma example_bytes:
  "memory example_state 0x1086 = 0x14" "memory example_state 0x1087 = 0"
  "memory example_state 0x1090 = 2" "memory example_state 0x1091 = 0"
  "memory example_state 0x1092 = 0" "memory example_state 0x1093 = 0"
  "memory example_state 0x1094 = 0x46" "memory example_state 0x1095 = 0x49"
  "memory example_state 0x1096 = 0x4E" "memory example_state 0x1097 = 0x46"
  "memory example_state 0x1098 = 0x20" "memory example_state 0x1099 = 0"
  "memory example_state 0x109A = 0" "memory example_state 0x109B = 0"
  "memory example_state 0x10AC = 0x30" "memory example_state 0x10AD = 0"
  "memory example_state 0x10AE = 0" "memory example_state 0x10AF = 0x18"
  "memory example_state 0x10B4 = 0x43" "memory example_state 0x10B5 = 0x4D"
  "memory example_state 0x10B6 = 0x41" "memory example_state 0x10B7 = 0x50"
  "memory example_state 0x10B8 = 0x14" "memory example_state 0x10B9 = 0"
  "memory example_state 0x10BA = 0" "memory example_state 0x10BB = 0"
  "memory example_state 0x10C4 = 0x40" "memory example_state 0x10C5 = 0"
  "memory example_state 0x10C6 = 0" "memory example_state 0x10C7 = 0x18"
  by (simp_all add: example_state_def store_bytes_def example_font_def)

lemma example_header:
  "font_num_blocks example_kernel 7 (memory example_state) = 2"
  "font_first_section example_kernel 7 (memory example_state) = 0x1094"
  by (simp_all add: font_num_blocks_def font_first_section_def example_kernel_def
      SharedFontStartOffset_def get_u32_def get_u16_def u32_le_def u16_le_def example_bytes)

lemma example_sections:
  "section_offsets (memory example_state) 0x1094 = [16, 20, 24]"
  "section_header_size (memory example_state) 0x1094 = 32"
  "section_size_at (memory example_state) 0x1094 = 32"
  "section_offsets (memory example_state) 0x10B4 = [16]"
  "section_header_size (memory example_state) 0x10B4 = 20"
  "section_size_at (memory example_state) 0x10B4 = 20"
  by (simp_all add: section_offsets_def section_header_size_def section_size_at_def
      memcmp_eq_def load_bytes_4 read_u32_bytes_le u32_le_def example_bytes)

lemma example_layout:
  "font_wf (memory example_state) 2 0x1094"
  "font_fields (memory example_state) 2 0x1094 = [0x10A4, 0x10A8, 0x10AC, 0x10C4]"
  by (simp_all add: numeral_2_eq_2 example_sections)

theorem GetSharedFont_relocates_once_witness:
  "shared_font_mem example_state = Some 7
   \<and> font_wf (memory example_state) 2 0x1094
   \<and> font_fields (memory example_state) 2 0x1094 = [0x10A4, 0x10A8, 0x10AC, 0x10C4]
   \<and> read_u32 (memory example_state) 0x10AC = 0x18000030
   \<and> read_u32 (memory example_state) 0x10C4 = 0x18000040
   \<and> (\<exists>s1. GetSharedFont example_kernel example_state = Some s1
         \<and> shared_font_relocated s1
         \<and> read_u32 (memory s1) 0x10AC = 0x14000030
         \<and> read_u32 (memory s1) 0x10C4 = 0x14000040
         \<and> memory s1 0x10B4 = 0x43
         \<and> (\<exists>s2. GetSharedFont_calls example_kernel [\<lambda>i. 0, \<lambda>i. 1] s1 = Some s2
                \<and> memory s2 = memory s1 \<and> shared_font_relocated s2))"
proof -
  note inst = GetSharedFont_relocates_once [of example_state 7 example_kernel]
  have loaded: "shared_font_mem example_state = Some 7"
    and fresh: "\<not> shared_font_relocated example_state"
    by (simp_all add: example_state_def)
  have before: "read_u32 (memory example_state) 0x10AC = 0x18000030"
    "read_u32 (memory example_state) 0x10C4 = 0x18000040"
    by (simp_all add: read_u32_bytes_le u32_le_def example_bytes)
  from inst loaded obtain s1 where s1: "GetSharedFont example_kernel example_state = Some s1"
    "shared_font_relocated s1"
    "if shared_font_relocated example_state then memory s1 = memory example_state
     else RelocateSharedFont example_kernel SHARED_FONT_VADDR
            (Memory_PhysicalToVirtualAddress example_kernel
               (SharedMemory_linear_heap_phys_address example_kernel 7)) example_state
          = Some (example_state\<lparr>memory := memory s1, shared_font_relocated := True\<rparr>)
        \<and> memory s1
            = relocate_blocks SHARED_FONT_VADDR
                (Memory_PhysicalToVirtualAddress example_kernel
                   (SharedMemory_linear_heap_phys_address example_kernel 7))
                (font_num_blocks example_kernel 7 (memory example_state))
                (font_first_section example_kernel 7 (memory example_state))
                (memory example_state)
        \<and> (font_wf (memory example_state)
              (font_num_blocks example_kernel 7 (memory example_state))
              (font_first_section example_kernel 7 (memory example_state)) \<longrightarrow>
            fields_relocated (memory example_state) (memory s1)
              (font_fields (memory example_state)
                 (font_num_blocks example_kernel 7 (memory example_state))
                 (font_first_section example_kernel 7 (memory example_state)))
              (Memory_PhysicalToVirtualAddress example_kernel
                 (SharedMemory_linear_heap_phys_address example_kernel 7) - SHARED_FONT_VADDR))"
    "\<forall>cbs. \<exists>s2. GetSharedFont_calls example_kernel cbs s1 = Some s2
       \<and> memory s2 = memory s1 \<and> shared_font_relocated s2"
    by blast
  note relocation = s1(3) [unfolded if_not_P [OF fresh]]
  note laid_out = relocation [THEN conjunct2, THEN conjunct2, unfolded example_header]
  from laid_out example_layout(1)
  have "fields_relocated (memory example_state) (memory s1)
      (font_fields (memory example_state) 2 0x1094)
      (Memory_PhysicalToVirtualAddress example_kernel
         (SharedMemory_linear_heap_phys_address example_kernel 7) - SHARED_FONT_VADDR)"
    by (rule mp)
  then have "fields_relocated (memory example_state) (memory s1)
      [0x10A4, 0x10A8, 0x10AC, 0x10C4] (0x14000000 - 0x18000000)"
    by (simp add: example_layout example_target SHARED_FONT_VADDR_def)
  then have after: "read_u32 (memory s1) 0x10AC = read_u32 (memory example_state) 0x10AC
        + (0x14000000 - 0x18000000)"
    "read_u32 (memory s1) 0x10C4 = read_u32 (memory example_state) 0x10C4
        + (0x14000000 - 0x18000000)"
    and kept: "memory s1 0x10B4 = memory example_state 0x10B4"
    by (simp_all add: fields_relocated_def)
  from after before have "read_u32 (memory s1) 0x10AC = 0x14000030"
    "read_u32 (memory s1) 0x10C4 = 0x14000040"
    by simp_all
  moreover from kept have "memory s1 0x10B4 = 0x43"
    by (simp add: example_bytes)
  ultimately show ?thesis
    using s1(1,2,4) loaded before example_layout by blast
qed

lemma zero_size_bytes:
  "memory zero_size_state 0x1086 = 0x14" "memory zero_size_state 0x1087 = 0"
  "memory zero_size_state 0x1090 = 3" "memory zero_size_state 0x1091 = 0"
  "memory zero_size_state 0x1092 = 0" "memory zero_size_state 0x1093 = 0"
  "memory zero_size_state 0x1094 = 0x46" "memory zero_size_state 0x1095 = 0x49"
  "memory zero_size_state 0x1096 = 0x4E" "memory zero_size_state 0x1097 = 0x46"
  "memory zero_size_state 0x1098 = 0" "memory zero_size_state 0x1099 = 0"
  "memory zero_size_state 0x109A = 0" "memory zero_size_state 0x109B = 0"
  "memory zero_size_state 0x10AC = 0x30" "memory zero_size_state 0x10AD = 0"
  "memory zero_size_state 0x10AE = 0" "memory zero_size_state 0x10AF = 0x18"
  by (simp_all add: zero_size_state_def store_bytes_def zero_size_font_def)

lemma zero_size_header:
  "font_num_blocks example_kernel 7 (memory zero_size_state) = 3"
  "font_first_section example_kernel 7 (memory zero_size_state) = 0x1094"
  by (simp_all add: font_num_blocks_def font_first_section_def example_kernel_def
      SharedFontStartOffset_def get_u32_def get_u16_def u32_le_def u16_le_def zero_size_bytes)

text \<open>
  Without the condition on the layout the offsets of a recognized section need not grow by
  the delta: in a font whose FINF section gives its size as 0 and whose header counts three
  blocks, all three passes relocate that section, and its \<open>cmap_offset\<close> \<open>0x18000030\<close> ends as
  \<open>0x0C000030\<close>, three times the delta \<open>0xFC000000\<close> further, not as \<open>0x14000030\<close>.
\<close>

theorem GetSharedFont_zero_size_counterexample:
  "shared_font_mem zero_size_state = Some 7
   \<and> \<not> shared_font_relocated zero_size_state
   \<and> memcmp_eq (memory zero_size_state) 0x1094 ''FINF'' 4
   \<and> read_u32 (memory zero_size_state) 0x10AC = 0x18000030
   \<and> Memory_PhysicalToVirtualAddress example_kernel
        (SharedMemory_linear_heap_phys_address example_kernel 7) - SHARED_FONT_VADDR
       = 0xFC000000
   \<and> read_after (GetSharedFont example_kernel zero_size_state) 0x10AC = Some 0x0C000030
   \<and> read_after (GetSharedFont example_kernel zero_size_state) 0x10AC
       \<noteq> Some (0x18000030 + 0xFC000000)"
proof -
  have loaded: "shared_font_mem zero_size_state = Some 7"
    and fresh: "\<not> shared_font_relocated zero_size_state"
    by (simp_all add: zero_size_state_def example_state_def)
  have magic: "memcmp_eq (memory zero_size_state) 0x1094 ''FINF'' 4"
    by (simp add: memcmp_eq_def load_bytes_4 zero_size_bytes)
  have size: "read_u32 (memory zero_size_state) (0x1094 + 4) = 0"
    by (simp add: read_u32_bytes_le u32_le_def zero_size_bytes)
  have before: "read_u32 (memory zero_size_state) 0x10AC = 0x18000030"
    by (simp add: read_u32_bytes_le u32_le_def zero_size_bytes)
  have delta: "Memory_PhysicalToVirtualAddress example_kernel
        (SharedMemory_linear_heap_phys_address example_kernel 7) - SHARED_FONT_VADDR
       = 0xFC000000"
    by (simp add: example_target SHARED_FONT_VADDR_def)
  from GetSharedFont_first [OF loaded fresh, of example_kernel] obtain s1 sr where
    s1: "GetSharedFont example_kernel zero_size_state = Some s1"
      "RelocateSharedFont example_kernel SHARED_FONT_VADDR 0x14000000 zero_size_state = Some sr"
      "memory s1 = memory sr"
    unfolding example_target by blast
  from RelocateSharedFont_memory [OF loaded, of example_kernel SHARED_FONT_VADDR "0x14000000"] s1(2)
  have "sr = zero_size_state
      \<lparr>memory := relocate_blocks SHARED_FONT_VADDR 0x14000000 3 0x1094 (memory zero_size_state),
       shared_font_relocated := True\<rparr>"
    by (simp add: zero_size_header)
  then have "memory sr
      = relocate_blocks SHARED_FONT_VADDR 0x14000000 3 0x1094 (memory zero_size_state)"
    by simp
  with s1(3)
  have "memory s1 = relocate_blocks 0x18000000 0x14000000 3 0x1094 (memory zero_size_state)"
    by (simp add: SHARED_FONT_VADDR_def)
  with zero_size_FINF_passes [OF magic size, of "0x18000000" "0x14000000" 3] before
  have "read_u32 (memory s1) 0x10AC = 0x0C000030"
    by simp
  with s1(1) have "read_after (GetSharedFont example_kernel zero_size_state) 0x10AC
      = Some 0x0C000030"
    by (simp add: read_after_def)
  with loaded fresh magic before delta show ?thesis by simp
qed


section \<open>Properties of the audio configuration widget\<close>

lemma items_setConfiguration_loop:
  "items (setConfiguration_loop sink_id index box) = items box"
proof (induction sink_id index box rule: setConfiguration_loop.induct)
  case (1 sink_id index box)
  then show ?case
    by (subst setConfiguration_loop.simps) (simp add: setCurrentIndex_def)
qed

lemma setConfiguration_loop_selects:
  "index \<le> k \<Longrightarrow> k < count box \<Longrightarrow> items box ! k = sink_id
   \<Longrightarrow> (\<And>j. index \<le> j \<Longrightarrow> j < k \<Longrightarrow> items box ! j \<noteq> sink_id)
   \<Longrightarrow> currentIndex (setConfiguration_loop sink_id index box) = int k"
proof (induction sink_id index box rule: setConfiguration_loop.induct)
  case (1 sink_id index box)
  show ?case
  proof (cases "index = k")
    case True
    with 1 show ?thesis
      by (subst setConfiguration_loop.simps) (simp add: itemText_def setCurrentIndex_def)
  next
    case False
    with 1 have lt: "index < k" by simp
    with 1 have ne: "items box ! index \<noteq> sink_id" by simp
    have "currentIndex (setConfiguration_loop sink_id (index + 1) box) = int k"
      using 1 lt ne by (intro "1.IH") (simp_all add: itemText_def)
    with 1 lt ne show ?thesis
      by (subst setConfiguration_loop.simps) (simp add: itemText_def)
  qed
qed

lemma items_fold_addItem: "items (fold addItem xs box) = items box @ xs"
  by (induction xs arbitrary: box) (simp_all add: addItem_def)

text \<open>
  C10. Whatever sink id is stored and whatever sinks are available, the combo box built
  by the constructor ends with current index 0 after \<open>setConfiguration\<close>, so the
  selected item is \<open>auto\<close> and applying the dialog stores \<open>auto\<close>; any non-empty box
  ends with index 0 as well. Where the stored id is found at index \<open>k\<close>, the search loop
  selects \<open>k\<close>, and the \<open>setCurrentIndex(0)\<close> after the loop replaces that selection
  by 0.
\<close>

theorem setConfiguration_current_index_0:
  "currentIndex (ConfigureAudio g_sink_details sink_id box) = 0
   \<and> items (ConfigureAudio g_sink_details sink_id box) = ''auto'' # g_sink_details
   \<and> applyConfiguration (ConfigureAudio g_sink_details sink_id box) = ''auto''
   \<and> (items box \<noteq> [] \<longrightarrow>
        currentIndex (setConfiguration sink_id box) = 0
        \<and> items (setConfiguration sink_id box) = items box)
   \<and> (k < count box \<and> items box ! k = sink_id \<and> sink_id \<notin> set (take k (items box)) \<longrightarrow>
        currentIndex (setConfiguration_loop sink_id 0 box) = int k
        \<and> currentIndex (setConfiguration sink_id box) = 0)"
proof -
  have general: "currentIndex (setConfiguration sink_id b) = 0
      \<and> items (setConfiguration sink_id b) = items b" if "items b \<noteq> []" for b
    using that
    by (simp add: setConfiguration_def setCurrentIndex_def count_def
        items_setConfiguration_loop)
  have built: "items (fold addItem g_sink_details (addItem ''auto'' (clear box)))
      = ''auto'' # g_sink_details"
    by (simp add: items_fold_addItem addItem_def clear_def)
  have ctor: "currentIndex (ConfigureAudio g_sink_details sink_id box) = 0
      \<and> items (ConfigureAudio g_sink_details sink_id box) = ''auto'' # g_sink_details"
    unfolding ConfigureAudio_def using general built by simp
  then have applied: "applyConfiguration (ConfigureAudio g_sink_details sink_id box) = ''auto''"
    by (simp add: applyConfiguration_def itemText_def count_def)
  have found: "currentIndex (setConfiguration_loop sink_id 0 box) = int k
      \<and> currentIndex (setConfiguration sink_id box) = 0"
    if k: "k < count box" "items box ! k = sink_id" "sink_id \<notin> set (take k (items box))"
  proof -
    have "items box ! j \<noteq> sink_id" if "j < k" for j
    proof -
      from that k(1) have "take k (items box) ! j = items box ! j"
        by simp
      moreover from that k(1) have "take k (items box) ! j \<in> set (take k (items box))"
        by (intro nth_mem) (simp add: count_def)
      ultimately show ?thesis using k(3) by auto
    qed
    then have "currentIndex (setConfiguration_loop sink_id 0 box) = int k"
      using k by (intro setConfiguration_loop_selects) simp_all
    moreover from k(1) have "items box \<noteq> []" by (auto simp: count_def)
    ultimately show ?thesis using general by simp
  qed
  from ctor applied general found show ?thesis by blast
qed

theorem setConfiguration_current_index_0_witness:
  "currentIndex (ConfigureAudio [''null'', ''sdl2''] ''sdl2'' \<lparr>items = [], currentIndex = -1\<rparr>) = 0
   \<and> applyConfiguration
        (ConfigureAudio [''null'', ''sdl2''] ''sdl2'' \<lparr>items = [], currentIndex = -1\<rparr>) = ''auto''
   \<and> currentIndex (setConfiguration_loop ''sdl2'' 0
        \<lparr>items = [''auto'', ''null'', ''sdl2''], currentIndex = 0\<rparr>) = 2
   \<and> currentIndex (setConfiguration ''sdl2''
        \<lparr>items = [''auto'', ''null'', ''sdl2''], currentIndex = 0\<rparr>) = 0"
  using setConfiguration_current_index_0 [of "[''null'', ''sdl2'']" "''sdl2''"
      "\<lparr>items = [], currentIndex = -1\<rparr>" 2]
    setConfiguration_current_index_0 [of "[]" "''sdl2''"
      "\<lparr>items = [''auto'', ''null'', ''sdl2''], currentIndex = 0\<rparr>" 2]
  by (simp add: count_def)


section \<open>Properties of the code cache\<close>

lemma guest_start_repatch [simp]: "guest_start (repatch_to_stub ev b) = guest_start b"
  and code_buffer_repatch [simp]: "code_buffer (repatch_to_stub ev b) = code_buffer b"
  and guest_start_link [simp]: "guest_start (link_to a b) = guest_start b"
  and code_buffer_link [simp]: "code_buffer (link_to a b) = code_buffer b"
  by (simp_all add: repatch_to_stub_def link_to_def)

lemma map_guest_start_repatch [simp]:
  "map (guest_start \<circ> repatch_to_stub ev) xs = map guest_start xs"
  "map (code_buffer \<circ> repatch_to_stub ev) xs = map code_buffer xs"
  "map (guest_start \<circ> link_to a) xs = map guest_start xs"
  "map (code_buffer \<circ> link_to a) xs = map code_buffer xs"
  by (simp_all add: comp_def)

lemma Lookup_None_iff: "Lookup cache pc = None \<longleftrightarrow> pc \<notin> guest_start ` set (blocks cache)"
  by (auto simp: Lookup_def find_None_iff)

lemma Lookup_SomeD: "Lookup cache pc = Some b \<Longrightarrow> b \<in> set (blocks cache) \<and> guest_start b = pc"
  by (auto simp: Lookup_def find_Some_iff)

lemma cache_inv_empty: "cache_inv empty_cache"
  by (simp add: cache_inv_def empty_cache_def)

lemma cache_inv_InvalidateRange: "cache_inv cache \<Longrightarrow> cache_inv (InvalidateRange address len cache)"
  by (auto simp: cache_inv_def InvalidateRange_def Let_def distinct_map_filter)

lemma cache_inv_CompileBlock:
  assumes "cache_inv cache" and "Lookup cache address = None"
  shows "cache_inv (CompileBlock address len exits cache)"
proof -
  from assms(2) have "address \<notin> guest_start ` set (blocks cache)"
    by (simp add: Lookup_None_iff)
  moreover from assms(1) have "next_buffer cache \<notin> code_buffer ` set (blocks cache)"
    by (auto simp: cache_inv_def)
  ultimately show ?thesis
    using assms(1) by (auto simp: cache_inv_def CompileBlock_def Let_def less_Suc_eq)
qed

lemma cache_inv_step: "cache_inv cache \<Longrightarrow> cache_inv (cache_step e cache)"
  by (cases e) (auto simp: cache_inv_InvalidateRange cache_inv_CompileBlock split: option.split)

lemma cache_inv_run: "cache_inv cache \<Longrightarrow> cache_inv (run_events events cache)"
  unfolding run_events_def
  by (induction events arbitrary: cache) (simp_all add: cache_inv_step)

lemma buffer_retired_step: "buffer_retired buf cache \<Longrightarrow> buffer_retired buf (cache_step e cache)"
  by (cases e)
     (auto simp: buffer_retired_def CompileBlock_def InvalidateRange_def Let_def
           split: option.split)

lemma buffer_retired_run: "buffer_retired buf cache \<Longrightarrow> buffer_retired buf (run_events events cache)"
  unfolding run_events_def
  by (induction events arbitrary: cache) (simp_all add: buffer_retired_step)

lemma InvalidateRange_evicts:
  assumes inv: "cache_inv cache" and hit: "Lookup cache a = Some b"
    and ov: "overlaps address len b"
  shows "Lookup (InvalidateRange address len cache) a = None"
    and "buffer_retired (code_buffer b) (InvalidateRange address len cache)"
proof -
  from hit have b: "b \<in> set (blocks cache)" "guest_start b = a"
    using Lookup_SomeD by blast+
  from inv have inj: "inj_on guest_start (set (blocks cache))"
    and injb: "inj_on code_buffer (set (blocks cache))"
    by (simp_all add: cache_inv_def distinct_map)
  have only: "x = b" if "x \<in> set (blocks cache)" "guest_start x = a" for x
    using inj b that by (auto dest: inj_onD)
  show "Lookup (InvalidateRange address len cache) a = None"
    using only ov by (auto simp: Lookup_None_iff InvalidateRange_def Let_def)
  have "x = b" if "x \<in> set (blocks cache)" "code_buffer x = code_buffer b" for x
    using injb b that by (auto dest: inj_onD)
  moreover from inv b have "code_buffer b < next_buffer cache"
    by (auto simp: cache_inv_def)
  ultimately show "buffer_retired (code_buffer b) (InvalidateRange address len cache)"
    using ov by (auto simp: buffer_retired_def InvalidateRange_def Let_def)
qed

lemma InvalidateRange_unlinks:
  assumes "Lookup cache a = Some b" and "overlaps address len b"
    and "c \<in> set (blocks (InvalidateRange address len cache))"
  shows "a \<notin> set (linked c)"
proof -
  from assms(1) have "b \<in> set (blocks cache)" "guest_start b = a"
    using Lookup_SomeD by blast+
  with assms(2) have "a \<in> set (map guest_start (filter (overlaps address len) (blocks cache)))"
    by force
  with assms(3) show ?thesis
    by (auto simp: InvalidateRange_def Let_def repatch_to_stub_def)
qed

text \<open>
  C6. In every cache the Dispatcher can reach from the empty one: when a block is cached
  at guest address \<open>a\<close> and \<open>InvalidateRange\<close> is called on a range overlapping its span,
  a lookup at \<open>a\<close> right after misses, no lookup at \<open>a\<close> after any further compilations
  and invalidations returns a block with the evicted block's code buffer, and no block
  left in the cache has a direct jump to \<open>a\<close> (those that had one are re-patched to the
  re-entry stub).
\<close>

theorem InvalidateRange_never_stale:
  fixes pre :: "cache_event list"
  defines "cache \<equiv> run_events pre empty_cache"
  assumes "Lookup cache a = Some b" and "overlaps address len b"
  shows "Lookup (InvalidateRange address len cache) a = None
    \<and> (\<forall>post b'. Lookup (run_events post (InvalidateRange address len cache)) a = Some b'
          \<longrightarrow> code_buffer b' \<noteq> code_buffer b)
    \<and> (\<forall>c \<in> set (blocks (InvalidateRange address len cache)). a \<notin> set (linked c))"
proof -
  have inv: "cache_inv cache"
    unfolding cache_def by (rule cache_inv_run [OF cache_inv_empty])
  note ev = InvalidateRange_evicts [OF inv assms(2,3)]
  have "code_buffer b' \<noteq> code_buffer b"
    if "Lookup (run_events post (InvalidateRange address len cache)) a = Some b'" for post b'
  proof -
    from buffer_retired_run [OF ev(2)]
    have "buffer_retired (code_buffer b) (run_events post (InvalidateRange address len cache))" .
    moreover from that have "b' \<in> set (blocks (run_events post (InvalidateRange address len cache)))"
      using Lookup_SomeD by blast
    ultimately show ?thesis by (auto simp: buffer_retired_def)
  qed
  with ev(1) InvalidateRange_unlinks [OF assms(2,3)] show ?thesis by blast
qed

theorem InvalidateRange_never_stale_witness:
  "Lookup (run_events [Reach 0x1000 8 [0x2000], Reach 0x2000 4 [0x1000]] empty_cache) 0x1000
     = Some \<lparr>code_buffer = 0, guest_start = 0x1000, guest_length = 8,
             patch_points = [], linked = [0x2000]\<rparr>
   \<and> overlaps 0x1004 2 \<lparr>code_buffer = 0, guest_start = 0x1000, guest_length = 8,
             patch_points = [], linked = [0x2000]\<rparr>
   \<and> Lookup (InvalidateRange 0x1004 2
        (run_events [Reach 0x1000 8 [0x2000], Reach 0x2000 4 [0x1000]] empty_cache)) 0x1000
     = None
   \<and> blocks (InvalidateRange 0x1004 2
        (run_events [Reach 0x1000 8 [0x2000], Reach 0x2000 4 [0x1000]] empty_cache))
     = [\<lparr>code_buffer = 1, guest_start = 0x2000, guest_length = 4,
         patch_points = [0x1000], linked = []\<rparr>]"
proof -
  let ?pre = "[Reach 0x1000 8 [0x2000], Reach 0x2000 4 [0x1000]]"
  let ?b = "\<lparr>code_buffer = 0, guest_start = 0x1000, guest_length = 8,
             patch_points = [], linked = [0x2000]\<rparr>"
  have cache: "run_events ?pre empty_cache =
      \<lparr>blocks = [\<lparr>code_buffer = 1, guest_start = 0x2000, guest_length = 4,
                   patch_points = [], linked = [0x1000]\<rparr>, ?b],
       next_buffer = 2\<rparr>"
    by (simp add: run_events_def empty_cache_def Lookup_def CompileBlock_def link_to_def)
  have hit: "Lookup (run_events ?pre empty_cache) 0x1000 = Some ?b"
    unfolding cache by (simp add: Lookup_def)
  have ov: "overlaps 0x1004 2 ?b"
    by (simp add: overlaps_def)
  have after: "blocks (InvalidateRange 0x1004 2 (run_events ?pre empty_cache))
     = [\<lparr>code_buffer = 1, guest_start = 0x2000, guest_length = 4,
         patch_points = [0x1000], linked = []\<rparr>]"
    unfolding cache by (simp add: InvalidateRange_def overlaps_def repatch_to_stub_def)
  from InvalidateRange_never_stale [OF hit ov] hit ov after show ?thesis
    by blast
qed

end
